theory Spec2Isabelle
  imports Complex_Main "HOL-Library.Char_ord" "HOL-Library.List_Lexorder" "HOL-Library.Log_Nat"
begin

section \<open>Feed items and their rendering (buildBrief, src/pages/api/daily-brief.ts)\<close>

text \<open>
  The TypeScript interface \<^verbatim>\<open>FeedItem\<close> has four optional fields, each an array of
  strings (the shape xml2js produces). An absent field is \<open>None\<close>.
  Strings are lists of 8-bit characters.
\<close>

record FeedItem =
  title :: "string list option"
  description :: "string list option"
  link :: "string list option"
  pubDate :: "string list option"

text \<open>
  The expression \<^verbatim>\<open>item.f?.[0] || "placeholder"\<close>: optional chaining gives undefined for an
  absent field and for an empty array; \<^verbatim>\<open>||\<close> takes its right operand when the left one is
  falsy, and the only falsy string is the empty one.
\<close>

definition first_or :: "string list option \<Rightarrow> string \<Rightarrow> string" where
  "first_or field placeholder =
     (case field of
        None \<Rightarrow> placeholder
      | Some [] \<Rightarrow> placeholder
      | Some (s # _) \<Rightarrow> if s = [] then placeholder else s)"

text \<open>The arrow function mapped over each feed in daily-brief.ts (lines 184-187).\<close>

definition renderItem :: "FeedItem \<Rightarrow> string" where
  "renderItem item =
     first_or (title item) ''No title'' @ '' ('' @
     first_or (link item) ''No link'' @ '') - '' @
     first_or (description item) ''No description''"

text \<open>
  The oldest revision of the handler (src/unnamed/part_000, lines 78-82) renders no link:
  \<^verbatim>\<open>`${item.title?.[0] || "No title"} - ${item.description?.[0] || "No description"}`\<close>.
\<close>

definition renderItem_v1 :: "FeedItem \<Rightarrow> string" where
  "renderItem_v1 item =
     first_or (title item) ''No title'' @ '' - '' @
     first_or (description item) ''No description''"

text \<open>\<^verbatim>\<open>Array.prototype.join\<close>: the empty array gives the empty string.\<close>

fun join :: "string \<Rightarrow> string list \<Rightarrow> string" where
  "join sep [] = []"
| "join sep [x] = x"
| "join sep (x # y # ys) = x @ sep @ join sep (y # ys)"

definition newline :: char where
  "newline = CHR 0x0A"

text \<open>
  \<^verbatim>\<open>feed.slice(0, 10).map(render).join("\n")\<close>, the expression that computes
  \<^verbatim>\<open>aiSummary\<close>, \<^verbatim>\<open>ycSummary\<close> and \<^verbatim>\<open>worldSummary\<close>.
\<close>

definition feedSummary :: "FeedItem list \<Rightarrow> string" where
  "feedSummary feed = join [newline] (map renderItem (take 10 feed))"

definition feedSummary_v1 :: "FeedItem list \<Rightarrow> string" where
  "feedSummary_v1 feed = join [newline] (map renderItem_v1 (take 10 feed))"

text \<open>Splitting a text at a separator character, as \<^verbatim>\<open>String.prototype.split\<close> does.\<close>

fun split_on :: "char \<Rightarrow> string \<Rightarrow> string list" where
  "split_on c [] = [[]]"
| "split_on c (x # xs) =
     (if x = c then [] # split_on c xs
      else (case split_on c xs of
              [] \<Rightarrow> [[x]]
            | l # ls \<Rightarrow> (x # l) # ls))"

text \<open>
  A well-formed item has a title, a link and a description, each with a non-empty first
  element.
\<close>

definition present :: "string list option \<Rightarrow> bool" where
  "present field = (case field of Some (s # _) \<Rightarrow> s \<noteq> [] | _ \<Rightarrow> False)"

definition well_formed :: "FeedItem \<Rightarrow> bool" where
  "well_formed item \<longleftrightarrow> present (title item) \<and> present (link item) \<and> present (description item)"

text \<open>The first element of a field that has one.\<close>

definition first_elem :: "string list option \<Rightarrow> string" where
  "first_elem field = (case field of Some (s # _) \<Rightarrow> s | _ \<Rightarrow> [])"

definition single_line :: "FeedItem \<Rightarrow> bool" where
  "single_line item \<longleftrightarrow>
     newline \<notin> set (first_elem (title item)) \<and>
     newline \<notin> set (first_elem (link item)) \<and>
     newline \<notin> set (first_elem (description item))"

section \<open>Strings and their code units\<close>

text \<open>
  A JavaScript string is a sequence of 16-bit code units. It is modelled by the list of
  the bytes of its UTF-8 encoding (a lone surrogate by the three bytes of the generalised
  encoding). Concatenation, emptiness and equality do not depend on the encoding; where
  JavaScript looks at code units (the order of \<^verbatim>\<open>sort\<close>, the indices of a string, the
  white space \<^verbatim>\<open>parseFloat\<close> skips) the bytes are decoded. A byte that does not begin a
  well-formed sequence stands for the code unit of its own value.
\<close>

definition lead_extra :: "nat \<Rightarrow> nat" where
  \<comment> \<open>the number of continuation bytes a lead byte announces\<close>
  "lead_extra b =
     (if 0xC2 \<le> b \<and> b < 0xE0 then 1
      else if 0xE0 \<le> b \<and> b < 0xF0 then 2
      else if 0xF0 \<le> b \<and> b < 0xF5 then 3
      else 0)"

definition is_cont :: "char \<Rightarrow> bool" where
  "is_cont c \<longleftrightarrow> (0x80::nat) \<le> of_char c \<and> (of_char c :: nat) < 0xC0"

definition extra_len :: "string \<Rightarrow> nat" where
  \<comment> \<open>the number of bytes that follow the first byte in the first character\<close>
  "extra_len s =
     (case s of
        [] \<Rightarrow> 0
      | c # cs \<Rightarrow>
          let n = lead_extra (of_char c)
          in if n \<le> length cs \<and> list_all is_cont (take n cs) then n else 0)"

definition code_point :: "string \<Rightarrow> nat" where
  \<comment> \<open>the code point of the first character\<close>
  "code_point s =
     (case s of
        [] \<Rightarrow> 0
      | c # cs \<Rightarrow>
          let n = extra_len s; b = of_char c
          in if n = 0 then b
             else foldl (\<lambda>a x. a * 64 + (of_char x - 0x80))
                    (b - (if n = 1 then 0xC0 else if n = 2 then 0xE0 else 0xF0)) (take n cs))"

definition units_of :: "nat \<Rightarrow> nat list" where
  \<comment> \<open>the code units of a code point: itself, or a surrogate pair\<close>
  "units_of cp =
     (if cp < 0x10000 then [cp]
      else [0xD800 + (cp - 0x10000) div 0x400, 0xDC00 + (cp - 0x10000) mod 0x400])"

fun utf16 :: "string \<Rightarrow> nat list" where
  "utf16 s =
     (if s = [] then []
      else units_of (code_point s) @ utf16 (drop (Suc (extra_len s)) s))"

declare utf16.simps [simp del]

text \<open>
  The strings \<^verbatim>\<open>s[0]\<close>, \<^verbatim>\<open>s[1]\<close>, ... of the code units of a string. The program never
  looks into such a string; a half of a surrogate pair is given as the whole character.
\<close>

fun unit_strings :: "string \<Rightarrow> string list" where
  "unit_strings s =
     (if s = [] then []
      else replicate (length (units_of (code_point s))) (take (Suc (extra_len s)) s)
           @ unit_strings (drop (Suc (extra_len s)) s))"

declare unit_strings.simps [simp del]

definition ascii :: "string \<Rightarrow> bool" where
  "ascii s = list_all (\<lambda>c. (of_char c :: nat) < 0x80) s"

section \<open>JavaScript numbers\<close>

text \<open>
  A JavaScript number is an IEEE 754 double. It is modelled by its value as a rational,
  with the two signed zeros, the two infinities and NaN kept apart: \<open>Fin 0\<close> is \<open>+0\<close>,
  \<open>NegZero\<close> is \<open>-0\<close>, and \<open>Fin r\<close> for \<open>r \<noteq> 0\<close> is the double of value \<open>r\<close>. Every
  operation computes the exact result and rounds it to the nearest double, ties to the
  even significand.
\<close>

datatype jsnum = Fin rat | NegZero | PosInf | NegInf | NaN

definition is_nan :: "jsnum \<Rightarrow> bool" where
  "is_nan x = (case x of NaN \<Rightarrow> True | _ \<Rightarrow> False)"

definition is_inf :: "jsnum \<Rightarrow> bool" where
  "is_inf x = (case x of PosInf \<Rightarrow> True | NegInf \<Rightarrow> True | _ \<Rightarrow> False)"

definition is_neg :: "jsnum \<Rightarrow> bool" where
  "is_neg x = (case x of Fin r \<Rightarrow> r < 0 | NegZero \<Rightarrow> True | NegInf \<Rightarrow> True | _ \<Rightarrow> False)"

definition value_of :: "jsnum \<Rightarrow> rat" where
  "value_of x = (case x of Fin r \<Rightarrow> r | _ \<Rightarrow> 0)"

definition is_zero :: "jsnum \<Rightarrow> bool" where
  "is_zero x = (case x of Fin r \<Rightarrow> r = 0 | NegZero \<Rightarrow> True | _ \<Rightarrow> False)"

definition mk_zero :: "bool \<Rightarrow> jsnum" where
  "mk_zero neg = (if neg then NegZero else Fin 0)"

definition mk_inf :: "bool \<Rightarrow> jsnum" where
  "mk_inf neg = (if neg then NegInf else PosInf)"

subsection \<open>Rounding to the nearest double\<close>

text \<open>
  For \<open>a > 0\<close>, \<open>floor_log2 a\<close> is the exponent \<open>e\<close> with \<open>2^e \<le> a < 2^(e+1)\<close>, found
  from the bit lengths of numerator and denominator.
\<close>

definition floor_log2 :: "rat \<Rightarrow> int" where
  "floor_log2 a =
     (case quotient_of a of (n, d) \<Rightarrow>
        let k = bitlen n - bitlen d in if 2 powi k \<le> a then k else k - 1)"

definition round_half_even :: "rat \<Rightarrow> int" where
  "round_half_even x =
     (let f = \<lfloor>x\<rfloor>; d = x - of_int f
      in if d < 1 / 2 then f else if 1 / 2 < d then f + 1 else if even f then f else f + 1)"

definition overflow :: rat where
  "overflow = 2 powi 1024"

text \<open>
  The double nearest to the magnitude \<open>a \<ge> 0\<close>, with the sign \<open>neg\<close>. A double is a
  multiple of \<open>2^q\<close> with a significand of at most 53 bits, where \<open>q\<close> is \<open>e - 52\<close> in the
  normal range and \<open>-1074\<close> for the subnormal numbers. A magnitude that rounds to
  \<open>2^1024\<close> or more overflows to an infinity, one that rounds to nothing underflows to a
  zero.
\<close>

definition round_double :: "bool \<Rightarrow> rat \<Rightarrow> jsnum" where
  "round_double neg a =
     (if a = 0 then mk_zero neg
      else
        let e = floor_log2 a;
            q = max (e - 52) (- 1074);
            m = round_half_even (a / 2 powi q);
            v = of_int m * 2 powi q
        in if overflow \<le> v then mk_inf neg
           else if m = 0 then mk_zero neg
           else Fin (if neg then - v else v))"

definition mk_fin :: "bool \<Rightarrow> rat \<Rightarrow> jsnum" where
  \<comment> \<open>the double of an exact result \<open>r\<close>; \<open>neg\<close> is the sign an exact zero takes\<close>
  "mk_fin neg r = (if r = 0 then mk_zero neg else round_double (r < 0) \<bar>r\<bar>)"

subsection \<open>Arithmetic\<close>

text \<open>Subtraction \<^verbatim>\<open>a - b\<close>, after Number::subtract of ECMAScript.\<close>

definition js_sub :: "jsnum \<Rightarrow> jsnum \<Rightarrow> jsnum" where
  "js_sub a b =
     (if is_nan a \<or> is_nan b then NaN
      else if is_inf a then (if a = b then NaN else a)
      else if is_inf b then mk_inf (\<not> is_neg b)
      else mk_fin (a = NegZero \<and> b = Fin 0) (value_of a - value_of b))"

text \<open>Division \<^verbatim>\<open>a / b\<close>, after Number::divide.\<close>

definition js_div :: "jsnum \<Rightarrow> jsnum \<Rightarrow> jsnum" where
  "js_div a b =
     (if is_nan a \<or> is_nan b then NaN
      else if is_inf a then (if is_inf b then NaN else mk_inf (is_neg a \<noteq> is_neg b))
      else if is_inf b then mk_zero (is_neg a \<noteq> is_neg b)
      else if is_zero b then (if is_zero a then NaN else mk_inf (is_neg a \<noteq> is_neg b))
      else mk_fin (is_neg a \<noteq> is_neg b) (value_of a / value_of b))"

text \<open>Multiplication \<^verbatim>\<open>a * b\<close>, after Number::multiply.\<close>

definition js_mul :: "jsnum \<Rightarrow> jsnum \<Rightarrow> jsnum" where
  "js_mul a b =
     (if is_nan a \<or> is_nan b then NaN
      else if is_inf a \<or> is_inf b then
        (if is_zero a \<or> is_zero b then NaN else mk_inf (is_neg a \<noteq> is_neg b))
      else mk_fin (is_neg a \<noteq> is_neg b) (value_of a * value_of b))"

subsection \<open>Decimal digits\<close>

definition digit_char :: "nat \<Rightarrow> char" where
  "digit_char d = ''0123456789'' ! d"

fun show_nat :: "nat \<Rightarrow> string" where
  "show_nat n =
     (if n < 10 then [digit_char n] else show_nat (n div 10) @ [digit_char (n mod 10)])"

declare show_nat.simps [simp del]

definition is_digit :: "char \<Rightarrow> bool" where
  "is_digit c \<longleftrightarrow> CHR ''0'' \<le> c \<and> c \<le> CHR ''9''"

definition digit_val :: "char \<Rightarrow> nat" where
  "digit_val c = of_char c - 48"

definition digits_val :: "string \<Rightarrow> nat" where
  "digits_val ds = foldl (\<lambda>a c. 10 * a + digit_val c) 0 ds"

subsection \<open>Number.prototype.toFixed\<close>

text \<open>
  \<^verbatim>\<open>x.toFixed(f)\<close>, after the steps of ECMAScript: NaN and the infinities print their
  names; the sign of a negative value is printed first; a magnitude of at least \<open>10^21\<close>
  prints as \<^verbatim>\<open>String\<close> prints it, which is the parameter \<open>num2str\<close> (the shortest
  round-trip notation of a double is not modelled); otherwise \<open>n\<close> is the integer
  nearest to \<open>|x| * 10^f\<close>, the larger one on a tie, and its digits are printed with the
  decimal point \<open>f\<close> places from the right. A negative zero prints without a sign.
\<close>

definition round_half_up :: "rat \<Rightarrow> nat" where
  "round_half_up x = nat \<lfloor>x + 1 / 2\<rfloor>"

definition toFixed_digits :: "nat \<Rightarrow> nat \<Rightarrow> string" where
  "toFixed_digits f n =
     (let m = show_nat n in
      if f = 0 then m
      else let m' = (if length m \<le> f then replicate (f + 1 - length m) CHR ''0'' @ m else m);
               k = length m'
           in take (k - f) m' @ ''.'' @ drop (k - f) m')"

definition toFixed :: "(rat \<Rightarrow> string) \<Rightarrow> nat \<Rightarrow> jsnum \<Rightarrow> string" where
  "toFixed num2str f x =
     (case x of
        NaN \<Rightarrow> ''NaN''
      | PosInf \<Rightarrow> ''Infinity''
      | NegInf \<Rightarrow> ''-Infinity''
      | NegZero \<Rightarrow> toFixed_digits f 0
      | Fin r \<Rightarrow>
          (if r < 0 then ''-'' else []) @
          (if \<bar>r\<bar> \<ge> 10 ^ 21 then num2str \<bar>r\<bar>
           else toFixed_digits f (round_half_up (\<bar>r\<bar> * 10 ^ f))))"

subsection \<open>parseFloat on strings\<close>

text \<open>
  \<^verbatim>\<open>parseFloat\<close> skips leading white space and line terminators and reads the longest
  prefix that is a decimal literal: an optional sign, then \<^verbatim>\<open>Infinity\<close>, or digits with an
  optional fraction and an optional exponent (an exponent without digits is not part of
  the literal). Without such a prefix the result is NaN; otherwise it is the double
  nearest to the value of the literal.
\<close>

definition is_ws :: "nat \<Rightarrow> bool" where
  \<comment> \<open>the code points of WhiteSpace and LineTerminator\<close>
  "is_ws cp \<longleftrightarrow>
     cp \<in> set [0x09, 0x0A, 0x0B, 0x0C, 0x0D, 0x20, 0xA0, 0x1680, 0x2028, 0x2029, 0x202F,
               0x205F, 0x3000, 0xFEFF]
     \<or> (0x2000 \<le> cp \<and> cp \<le> 0x200A)"

fun skip_ws :: "string \<Rightarrow> string" where
  "skip_ws s =
     (if s \<noteq> [] \<and> is_ws (code_point s) then skip_ws (drop (Suc (extra_len s)) s) else s)"

declare skip_ws.simps [simp del]

definition read_sign :: "string \<Rightarrow> bool \<times> string" where
  "read_sign s =
     (case s of
        [] \<Rightarrow> (False, [])
      | c # r \<Rightarrow> if c = CHR ''-'' then (True, r) else if c = CHR ''+'' then (False, r) else (False, s))"

definition read_exponent :: "string \<Rightarrow> int" where
  "read_exponent s =
     (case s of
        [] \<Rightarrow> 0
      | c # r \<Rightarrow>
          if c = CHR ''e'' \<or> c = CHR ''E'' then
            (let (eneg, r') = read_sign r; ed = takeWhile is_digit r'
             in if ed = [] then 0
                else if eneg then - int (digits_val ed) else int (digits_val ed))
          else 0)"

text \<open>What \<^verbatim>\<open>parseFloat\<close> finds at the start of a string, with the exact value of a literal.\<close>

datatype literal = NoLiteral | InfinityLiteral bool | DecimalLiteral bool rat

definition read_literal :: "string \<Rightarrow> literal" where
  "read_literal s =
     (let (neg, s2) = read_sign (skip_ws s) in
      if take 8 s2 = ''Infinity'' then InfinityLiteral neg
      else
        let ip = takeWhile is_digit s2;
            r1 = dropWhile is_digit s2;
            (fp, r2) = (case r1 of
                          [] \<Rightarrow> ([], r1)
                        | c # r \<Rightarrow> if c = CHR ''.''
                                   then (takeWhile is_digit r, dropWhile is_digit r)
                                   else ([], r1))
        in if ip = [] \<and> fp = [] then NoLiteral
           else DecimalLiteral neg
                  ((of_nat (digits_val ip) + of_nat (digits_val fp) / 10 ^ length fp)
                     * 10 powi read_exponent r2))"

definition parseFloat_str :: "string \<Rightarrow> jsnum" where
  "parseFloat_str s =
     (case read_literal s of
        NoLiteral \<Rightarrow> NaN
      | InfinityLiteral neg \<Rightarrow> mk_inf neg
      | DecimalLiteral neg v \<Rightarrow> round_double neg v)"

section \<open>JSON values\<close>

text \<open>
  What \<^verbatim>\<open>response.json()\<close> resolves to. An object is an association list in which the
  first binding of a key is the property's value. \<open>None\<close> of type \<open>json option\<close> is
  \<^verbatim>\<open>undefined\<close>.
\<close>

datatype json =
    JNull
  | JBool bool
  | JNum jsnum
  | JStr string
  | JArr "json list"
  | JObj "(string \<times> json) list"

datatype error =
    TypeError
  | NetworkError
  | BodyError
  | ApiFailed string nat string
  | UnexpectedFormat string
  | InsufficientData string
  | ProductHuntError "json option"
  | OpenAIError
  | ResendError string

text \<open>ToBoolean, as used by \<^verbatim>\<open>!x\<close> and \<^verbatim>\<open>x || y\<close>.\<close>

definition truthy :: "json option \<Rightarrow> bool" where
  "truthy v =
     (case v of
        None \<Rightarrow> False
      | Some JNull \<Rightarrow> False
      | Some (JBool b) \<Rightarrow> b
      | Some (JNum n) \<Rightarrow> \<not> is_zero n \<and> \<not> is_nan n
      | Some (JStr s) \<Rightarrow> s \<noteq> []
      | Some (JArr _) \<Rightarrow> True
      | Some (JObj _) \<Rightarrow> True)"

text \<open>
  The own enumerable string-keyed properties of a value: the members of an object, the
  elements of an array and the code units of a string under their indices.
\<close>

definition own_entries :: "json \<Rightarrow> (string \<times> json) list" where
  "own_entries v =
     (case v of
        JObj kvs \<Rightarrow> kvs
      | JArr xs \<Rightarrow> zip (map show_nat [0..<length xs]) xs
      | JStr s \<Rightarrow> zip (map show_nat [0..<length (unit_strings s)]) (map JStr (unit_strings s))
      | _ \<Rightarrow> [])"

text \<open>
  \<^verbatim>\<open>Object.keys(v)\<close> for a value that is neither null nor undefined. The order of the
  result is not the one of ECMAScript (integer keys first); the program sorts it at once.
\<close>

definition object_keys :: "json \<Rightarrow> string list" where
  "object_keys v = remdups (map fst (own_entries v))"

text \<open>
  Property access \<^verbatim>\<open>v[k]\<close>: a TypeError on null, the own property otherwise. The keys the
  program uses are the fixed names of the provider formats and keys taken from
  \<^verbatim>\<open>Object.keys\<close>; none of them names an inherited property.
\<close>

definition get :: "json \<Rightarrow> string \<Rightarrow> error + json option" where
  "get v k = (case v of JNull \<Rightarrow> Inl TypeError | _ \<Rightarrow> Inr (map_of (own_entries v) k))"

definition get_opt :: "json option \<Rightarrow> string \<Rightarrow> error + json option" where
  \<comment> \<open>property access on a value that may be undefined\<close>
  "get_opt v k = (case v of None \<Rightarrow> Inl TypeError | Some w \<Rightarrow> get w k)"

definition get_chain :: "json option \<Rightarrow> string \<Rightarrow> error + json option" where
  \<comment> \<open>optional chaining \<^verbatim>\<open>v?.[k]\<close>: undefined when \<open>v\<close> is undefined or null\<close>
  "get_chain v k =
     (case v of None \<Rightarrow> Inr None | Some JNull \<Rightarrow> Inr None | Some w \<Rightarrow> get w k)"

text \<open>Sequencing of steps that may throw.\<close>

definition and_then :: "error + 'a \<Rightarrow> ('a \<Rightarrow> error + 'b) \<Rightarrow> error + 'b" where
  "and_then r f = (case r of Inl err \<Rightarrow> Inl err | Inr x \<Rightarrow> f x)"

fun all_of :: "(error + 'a) list \<Rightarrow> error + 'a list" where
  \<comment> \<open>the results of steps taken in order, or the first error\<close>
  "all_of [] = Inr []"
| "all_of (r # rs) =
     (case r of
        Inl err \<Rightarrow> Inl err
      | Inr x \<Rightarrow> (case all_of rs of Inl err \<Rightarrow> Inl err | Inr xs \<Rightarrow> Inr (x # xs)))"

text \<open>
  ToString of a value, as a template literal and \<^verbatim>\<open>parseFloat\<close> apply it. An integer of
  magnitude up to \<open>2^53\<close> prints its digits; the notation of the other finite numbers (the
  shortest digits that read back as the same double) is the parameter \<open>num2str\<close>. An
  array prints its elements separated by commas, null as nothing. An object is converted
  by the method \<^verbatim>\<open>toString\<close> it inherits, which gives \<^verbatim>\<open>[object Object]\<close>; an object with
  an own property of the name \<^verbatim>\<open>toString\<close> (whose value, in a parsed JSON document, is
  never a function) has no callable \<^verbatim>\<open>toString\<close> and no \<^verbatim>\<open>valueOf\<close> that returns a
  primitive value, and the conversion throws a TypeError.
\<close>

definition is_int :: "rat \<Rightarrow> bool" where
  "is_int r \<longleftrightarrow> r = of_int \<lfloor>r\<rfloor>"

definition num_toString :: "(rat \<Rightarrow> string) \<Rightarrow> jsnum \<Rightarrow> string" where
  "num_toString num2str x =
     (case x of
        NaN \<Rightarrow> ''NaN''
      | PosInf \<Rightarrow> ''Infinity''
      | NegInf \<Rightarrow> ''-Infinity''
      | NegZero \<Rightarrow> ''0''
      | Fin r \<Rightarrow>
          if is_int r \<and> \<bar>r\<bar> \<le> 2 ^ 53
          then (if r < 0 then ''-'' else []) @ show_nat (nat \<lfloor>\<bar>r\<bar>\<rfloor>)
          else num2str r)"

fun js_toString :: "(rat \<Rightarrow> string) \<Rightarrow> json \<Rightarrow> error + string" where
  "js_toString num2str JNull = Inr ''null''"
| "js_toString num2str (JBool b) = Inr (if b then ''true'' else ''false'')"
| "js_toString num2str (JNum n) = Inr (num_toString num2str n)"
| "js_toString num2str (JStr s) = Inr s"
| "js_toString num2str (JArr xs) =
     and_then (all_of (map (\<lambda>x. if x = JNull then Inr [] else js_toString num2str x) xs))
       (\<lambda>parts. Inr (join '','' parts))"
| "js_toString num2str (JObj kvs) =
     (if ''toString'' \<in> set (map fst kvs) then Inl TypeError else Inr ''[object Object]'')"

definition toString_opt :: "(rat \<Rightarrow> string) \<Rightarrow> json option \<Rightarrow> error + string" where
  "toString_opt num2str v =
     (case v of None \<Rightarrow> Inr ''undefined'' | Some w \<Rightarrow> js_toString num2str w)"

text \<open>
  \<^verbatim>\<open>parseFloat(v)\<close> applies ToString to its argument and reads the number from the string.
  The string of a number reads back as the number itself (\<open>-0\<close> prints as \<^verbatim>\<open>0\<close>); in
  the string of an array the comma after the first element ends every literal, so the
  number is the one of the first element.
\<close>

fun number_of :: "json \<Rightarrow> jsnum" where
  "number_of JNull = NaN"
| "number_of (JBool b) = NaN"
| "number_of (JNum n) = (if n = NegZero then Fin 0 else n)"
| "number_of (JStr s) = parseFloat_str s"
| "number_of (JArr []) = NaN"
| "number_of (JArr (x # xs)) = number_of x"
| "number_of (JObj kvs) = NaN"

definition parseFloat :: "(rat \<Rightarrow> string) \<Rightarrow> json option \<Rightarrow> error + jsnum" where
  "parseFloat num2str v =
     (case v of
        None \<Rightarrow> Inr NaN
      | Some w \<Rightarrow> and_then (js_toString num2str w) (\<lambda>text. Inr (number_of w)))"

section \<open>The outside world of one invocation\<close>

text \<open>
  A promise either rejects or resolves. A response carries \<^verbatim>\<open>ok\<close>, \<^verbatim>\<open>status\<close> and
  \<^verbatim>\<open>statusText\<close>; reading its body as text or as JSON is a promise of its own (the JSON
  parser is not modelled: the parsed body is part of the response).
\<close>

datatype 'a promise = Rejects | Resolves 'a

record response =
  ok :: bool
  status :: nat
  statusText :: string
  body_text :: "string promise"
  body_json :: "json promise"

text \<open>The document xml2js parses, typed by the interface \<^verbatim>\<open>RSSFeed\<close>.\<close>

record Channel =
  item :: "FeedItem list option"

record Rss =
  channel :: "Channel list option"

record RSSFeed =
  rss :: "Rss option"

text \<open>The chat completion, as far as the program reads it.\<close>

record message =
  content :: "string option"

record choice =
  message :: message

record completion =
  choices :: "choice list"

record chat_request =
  model :: string
  messages :: "(string \<times> string) list"
  temperature :: rat
  max_tokens :: nat

text \<open>
  Everything an invocation reads from outside: the answer of the network to each URL (every
  URL is fetched at most once in an invocation), the XML parser, the completion API, the
  environment variables, the clock, and the notation of numbers left open above. The
  messages of \<^verbatim>\<open>console.log\<close> and \<^verbatim>\<open>console.error\<close> are not modelled, only the
  exceptions that computing a message can throw.
\<close>

record env =
  fetch :: "string \<Rightarrow> response promise"
  parseStringPromise :: "string \<Rightarrow> RSSFeed option promise"
  openai_create :: "chat_request \<Rightarrow> completion promise"
  alphaVantageApiKey :: "string option"
  num2str :: "rat \<Rightarrow> string"
  localeDate :: string
  isoNow :: string

definition env_string :: "string option \<Rightarrow> string" where
  \<comment> \<open>an environment variable inside a template literal\<close>
  "env_string v = (case v of None \<Rightarrow> ''undefined'' | Some s \<Rightarrow> s)"

section \<open>fetchAndParseRSS\<close>

text \<open>
  The body of the \<^verbatim>\<open>try\<close> block. \<^verbatim>\<open>result.rss\<close> is a TypeError when the parser
  resolved to null; \<^verbatim>\<open>channel?.[0]\<close> is undefined for an empty array; an \<^verbatim>\<open>item\<close>
  array is truthy also when it is empty. The status of the response is not read.
\<close>

definition fetchAndParseRSS_try :: "env \<Rightarrow> string \<Rightarrow> error + FeedItem list" where
  "fetchAndParseRSS_try e url =
     (case fetch e url of
        Rejects \<Rightarrow> Inl NetworkError
      | Resolves response \<Rightarrow>
          (case body_text response of
             Rejects \<Rightarrow> Inl BodyError
           | Resolves xml \<Rightarrow>
               (case parseStringPromise e xml of
                  Rejects \<Rightarrow> Inl BodyError
                | Resolves None \<Rightarrow> Inl TypeError
                | Resolves (Some result) \<Rightarrow>
                    (case rss result of
                       None \<Rightarrow> Inr []
                     | Some r \<Rightarrow>
                         (case channel r of
                            None \<Rightarrow> Inr []
                          | Some [] \<Rightarrow> Inr []
                          | Some (c # _) \<Rightarrow>
                              (case item c of None \<Rightarrow> Inr [] | Some items \<Rightarrow> Inr items))))))"

text \<open>The function: the \<^verbatim>\<open>catch\<close> block logs and returns the empty array.\<close>

definition fetchAndParseRSS :: "env \<Rightarrow> string \<Rightarrow> error + FeedItem list" where
  "fetchAndParseRSS e url =
     (case fetchAndParseRSS_try e url of Inl err \<Rightarrow> Inr [] | Inr items \<Rightarrow> Inr items)"

section \<open>fetchMarketData (src/pages/api/daily-brief.ts)\<close>

record quote =
  price :: jsnum
  changePercent :: string

definition alphaVantageUrl :: "env \<Rightarrow> string \<Rightarrow> string" where
  "alphaVantageUrl e symbol =
     ''https://www.alphavantage.co/query?function=TIME_SERIES_DAILY&symbol='' @ symbol @
     ''&apikey='' @ env_string (alphaVantageApiKey e)"

definition coinGeckoUrl :: string where
  "coinGeckoUrl =
     ''https://api.coingecko.com/api/v3/simple/price?ids=bitcoin&vs_currencies=usd&include_24hr_change=true''"

definition closeKey :: string where
  "closeKey = ''4. close''"

text \<open>
  \<^verbatim>\<open>xs.slice(-2)\<close>: the last two elements, or all of a shorter array. The default
  \<^verbatim>\<open>sort()\<close> orders strings by their sequences of code units; the keys of an object are
  distinct strings, so the sorted array is determined.
\<close>

definition slice_last2 :: "'a list \<Rightarrow> 'a list" where
  "slice_last2 xs = drop (length xs - 2) xs"

text \<open>
  Lines 69-88: the quote of one symbol from its time series. The template literal of the
  call of \<^verbatim>\<open>console.log\<close> (lines 77-79) converts the two raw closes to strings, which can
  throw, before \<^verbatim>\<open>parseFloat\<close> converts them again.
\<close>

definition quoteOfSeries :: "(rat \<Rightarrow> string) \<Rightarrow> string \<Rightarrow> json \<Rightarrow> error + quote" where
  "quoteOfSeries n2s symbol timeSeries =
     (let dates = slice_last2 (sort_key utf16 (object_keys timeSeries)) in
      if length dates < 2 then Inl (InsufficientData symbol)
      else
        and_then (get timeSeries (dates ! 1)) (\<lambda>latestEntry.
        and_then (get_opt latestEntry closeKey) (\<lambda>latestCloseRaw.
        and_then (get timeSeries (dates ! 0)) (\<lambda>previousEntry.
        and_then (get_opt previousEntry closeKey) (\<lambda>previousCloseRaw.
        and_then (toString_opt n2s latestCloseRaw) (\<lambda>latestText.
        and_then (toString_opt n2s previousCloseRaw) (\<lambda>previousText.
        and_then (parseFloat n2s latestCloseRaw) (\<lambda>latestClose.
        and_then (parseFloat n2s previousCloseRaw) (\<lambda>previousClose.
          let change = js_sub latestClose previousClose;
              changePct = js_mul (js_div change previousClose) (Fin 100)
          in Inr \<lparr>price = latestClose, changePercent = toFixed n2s 2 changePct\<rparr>)))))))))"

text \<open>Lines 47-88: the body of the loop over the symbols.\<close>

definition symbolQuote :: "env \<Rightarrow> string \<Rightarrow> error + quote" where
  "symbolQuote e symbol =
     (case fetch e (alphaVantageUrl e symbol) of
        Rejects \<Rightarrow> Inl NetworkError
      | Resolves response \<Rightarrow>
          if \<not> ok response then
            (case body_text response of
               Rejects \<Rightarrow> Inl BodyError
             | Resolves errorText \<Rightarrow> Inl (ApiFailed ''Alpha Vantage'' (status response) errorText))
          else
            (case body_json response of
               Rejects \<Rightarrow> Inl BodyError
             | Resolves data \<Rightarrow>
                 and_then (get data ''Time Series (Daily)'') (\<lambda>timeSeries.
                   case timeSeries of
                     None \<Rightarrow> Inl (UnexpectedFormat symbol)
                   | Some ts \<Rightarrow>
                       if \<not> truthy (Some ts) then Inl (UnexpectedFormat symbol)
                       else quoteOfSeries (num2str e) symbol ts)))"

text \<open>The loop, filling the dictionary \<^verbatim>\<open>marketData\<close>; the first throw leaves it.\<close>

fun collectQuotes :: "env \<Rightarrow> string list \<Rightarrow> (string \<rightharpoonup> quote) \<Rightarrow> error + (string \<rightharpoonup> quote)" where
  "collectQuotes e [] marketData = Inr marketData"
| "collectQuotes e (symbol # symbols) marketData =
     (case symbolQuote e symbol of
        Inl err \<Rightarrow> Inl err
      | Inr q \<Rightarrow> collectQuotes e symbols (marketData(symbol \<mapsto> q)))"

text \<open>
  \<^verbatim>\<open>v.toFixed(2)\<close> on a value of any type: only a number has the method, on everything
  else the call is a TypeError.
\<close>

definition call_toFixed :: "(rat \<Rightarrow> string) \<Rightarrow> json option \<Rightarrow> error + string" where
  "call_toFixed n2s v = (case v of Some (JNum n) \<Rightarrow> Inr (toFixed n2s 2 n) | _ \<Rightarrow> Inl TypeError)"

definition unavailable :: string where
  "unavailable = ''Market data unavailable''"

definition snapshot :: "(rat \<Rightarrow> string) \<Rightarrow> quote \<Rightarrow> quote \<Rightarrow> string \<Rightarrow> string \<Rightarrow> string" where
  "snapshot n2s spy qqq btcPrice btcChangePercent =
     ''Market snapshot: S&P 500 (via SPY): $'' @ toFixed n2s 2 (price spy) @ '' ('' @
     changePercent spy @ ''%), Nasdaq (via QQQ): $'' @ toFixed n2s 2 (price qqq) @ '' ('' @
     changePercent qqq @ ''%), Bitcoin: $'' @ btcPrice @ '' ('' @ btcChangePercent @ ''%)''"

text \<open>The body of the \<^verbatim>\<open>try\<close> block, lines 41-120.\<close>

definition fetchMarketData_try :: "env \<Rightarrow> error + string" where
  "fetchMarketData_try e =
     and_then (collectQuotes e [''SPY'', ''QQQ''] Map.empty) (\<lambda>marketData.
       case fetch e coinGeckoUrl of
         Rejects \<Rightarrow> Inl NetworkError
       | Resolves cgResponse \<Rightarrow>
           if \<not> ok cgResponse then
             (case body_text cgResponse of
                Rejects \<Rightarrow> Inl BodyError
              | Resolves errorText \<Rightarrow> Inl (ApiFailed ''CoinGecko'' (status cgResponse) errorText))
           else
             (case body_json cgResponse of
                Rejects \<Rightarrow> Inl BodyError
              | Resolves cgData \<Rightarrow>
                  and_then (get cgData ''bitcoin'') (\<lambda>btcData.
                    if \<not> truthy btcData then Inl (UnexpectedFormat ''CoinGecko'')
                    else
                      and_then (get_opt btcData ''usd'') (\<lambda>btcPrice.
                      and_then (get_opt btcData ''usd_24h_change'') (\<lambda>btcChange.
                      and_then (call_toFixed (num2str e) btcChange) (\<lambda>btcChangePercent.
                        case marketData ''SPY'' of
                          None \<Rightarrow> Inl TypeError
                        | Some spy \<Rightarrow>
                            (case marketData ''QQQ'' of
                               None \<Rightarrow> Inl TypeError
                             | Some qqq \<Rightarrow>
                                 and_then (call_toFixed (num2str e) btcPrice) (\<lambda>btc.
                                   Inr (snapshot (num2str e) spy qqq btc btcChangePercent)))))))))"

text \<open>The function: the \<^verbatim>\<open>catch\<close> block logs and returns the placeholder.\<close>

definition fetchMarketData :: "env \<Rightarrow> error + string" where
  "fetchMarketData e =
     (case fetchMarketData_try e of Inl err \<Rightarrow> Inr unavailable | Inr s \<Rightarrow> Inr s)"

section \<open>fetchMarketData of the earlier revisions (src/unnamed/part_000)\<close>

text \<open>
  Both earlier revisions (lines 36-61 and 240-265) ask Alpha Vantage for a global quote of
  each index and for the exchange rate of Bitcoin, and read each field with
  \<^verbatim>\<open>obj[outer]?.[inner] || "N/A"\<close>.
\<close>

definition globalQuoteUrl :: "env \<Rightarrow> string \<Rightarrow> string" where
  "globalQuoteUrl e symbol =
     ''https://www.alphavantage.co/query?function=GLOBAL_QUOTE&symbol='' @ symbol @
     ''&apikey='' @ env_string (alphaVantageApiKey e)"

definition exchangeRateUrl :: "env \<Rightarrow> string" where
  "exchangeRateUrl e =
     ''https://www.alphavantage.co/query?function=CURRENCY_EXCHANGE_RATE&from_currency=BTC&to_currency=USD&apikey=''
     @ env_string (alphaVantageApiKey e)"

definition fetch_json :: "env \<Rightarrow> string \<Rightarrow> error + json" where
  \<comment> \<open>\<^verbatim>\<open>fetch(url).then((res) => res.json())\<close>\<close>
  "fetch_json e url =
     (case fetch e url of
        Rejects \<Rightarrow> Inl NetworkError
      | Resolves res \<Rightarrow>
          (case body_json res of Rejects \<Rightarrow> Inl BodyError | Resolves d \<Rightarrow> Inr d))"

definition field_or_NA :: "json \<Rightarrow> string \<Rightarrow> string \<Rightarrow> error + json" where
  "field_or_NA obj outer inner =
     and_then (get obj outer) (\<lambda>quoted.
     and_then (get_chain quoted inner) (\<lambda>v.
       case v of
         None \<Rightarrow> Inr (JStr ''N/A'')
       | Some w \<Rightarrow> Inr (if truthy (Some w) then w else JStr ''N/A'')))"

definition snapshot_v1 :: "string \<Rightarrow> string \<Rightarrow> string \<Rightarrow> string \<Rightarrow> string \<Rightarrow> string" where
  "snapshot_v1 sp500Price sp500Change nasdaqPrice nasdaqChange bitcoinPrice =
     ''Market snapshot: S&P 500: '' @ sp500Price @ '' ('' @ sp500Change @ ''), Nasdaq: '' @
     nasdaqPrice @ '' ('' @ nasdaqChange @ ''), Bitcoin: $'' @ bitcoinPrice"

text \<open>
  The body of the \<^verbatim>\<open>try\<close> block. The template literal converts the five values to
  strings from left to right, and the conversion of an object can throw.
\<close>

definition fetchMarketData_v1_try :: "env \<Rightarrow> error + string" where
  "fetchMarketData_v1_try e =
     and_then (fetch_json e (globalQuoteUrl e ''^GSPC'')) (\<lambda>sp500.
     and_then (fetch_json e (globalQuoteUrl e ''^IXIC'')) (\<lambda>nasdaq.
     and_then (fetch_json e (exchangeRateUrl e)) (\<lambda>bitcoin.
     and_then (field_or_NA sp500 ''Global Quote'' ''05. price'') (\<lambda>sp500Price.
     and_then (field_or_NA sp500 ''Global Quote'' ''10. change percent'') (\<lambda>sp500Change.
     and_then (field_or_NA nasdaq ''Global Quote'' ''05. price'') (\<lambda>nasdaqPrice.
     and_then (field_or_NA nasdaq ''Global Quote'' ''10. change percent'') (\<lambda>nasdaqChange.
     and_then (field_or_NA bitcoin ''Realtime Currency Exchange Rate'' ''5. Exchange Rate'')
       (\<lambda>bitcoinPrice.
       and_then (js_toString (num2str e) sp500Price) (\<lambda>a.
       and_then (js_toString (num2str e) sp500Change) (\<lambda>b.
       and_then (js_toString (num2str e) nasdaqPrice) (\<lambda>c.
       and_then (js_toString (num2str e) nasdaqChange) (\<lambda>d.
       and_then (js_toString (num2str e) bitcoinPrice) (\<lambda>f.
         Inr (snapshot_v1 a b c d f))))))))))))))"

definition fetchMarketData_v1 :: "env \<Rightarrow> error + string" where
  "fetchMarketData_v1 e =
     (case fetchMarketData_v1_try e of Inl err \<Rightarrow> Inr unavailable | Inr s \<Rightarrow> Inr s)"

section \<open>fetchProductHuntPosts\<close>

definition productHuntUrl :: string where
  "productHuntUrl = ''https://api.producthunt.com/v2/api/graphql''"

text \<open>
  The arrow function mapped over \<^verbatim>\<open>edges\<close>: destructuring \<^verbatim>\<open>{ node }\<close>, then reading
  the four fields of the node and converting each to a string, from left to right.
\<close>

definition renderEdge :: "(rat \<Rightarrow> string) \<Rightarrow> json \<Rightarrow> error + string" where
  "renderEdge n2s edge =
     and_then (get edge ''node'') (\<lambda>node.
     and_then (get_opt node ''name'') (\<lambda>name.
     and_then (toString_opt n2s name) (\<lambda>a.
     and_then (get_opt node ''url'') (\<lambda>url.
     and_then (toString_opt n2s url) (\<lambda>b.
     and_then (get_opt node ''tagline'') (\<lambda>tagline.
     and_then (toString_opt n2s tagline) (\<lambda>c.
     and_then (get_opt node ''votesCount'') (\<lambda>votesCount.
     and_then (toString_opt n2s votesCount) (\<lambda>d.
       Inr (a @ '' ('' @ b @ '') - '' @ c @ '' (Votes: '' @ d @ '')''))))))))))"

fun renderEdges :: "(rat \<Rightarrow> string) \<Rightarrow> json list \<Rightarrow> error + string list" where
  "renderEdges n2s [] = Inr []"
| "renderEdges n2s (edge # edges) =
     (case renderEdge n2s edge of
        Inl err \<Rightarrow> Inl err
      | Inr l \<Rightarrow> (case renderEdges n2s edges of Inl err \<Rightarrow> Inl err | Inr ls \<Rightarrow> Inr (l # ls)))"

definition fetchProductHuntPosts_try :: "env \<Rightarrow> error + string" where
  "fetchProductHuntPosts_try e =
     and_then (fetch_json e productHuntUrl) (\<lambda>data.
     and_then (get data ''errors'') (\<lambda>errors.
       if truthy errors then Inl (ProductHuntError errors)
       else
         and_then (get data ''data'') (\<lambda>d.
         and_then (get_opt d ''posts'') (\<lambda>posts.
         and_then (get_opt posts ''edges'') (\<lambda>edges.
           case edges of
             Some (JArr xs) \<Rightarrow>
               and_then (renderEdges (num2str e) xs) (\<lambda>ls. Inr (join [newline] ls))
           | _ \<Rightarrow> Inl TypeError)))))"

definition fetchProductHuntPosts :: "env \<Rightarrow> error + string" where
  "fetchProductHuntPosts e =
     (case fetchProductHuntPosts_try e of
        Inl err \<Rightarrow> Inr ''Product Hunt data unavailable''
      | Inr s \<Rightarrow> Inr s)"

section \<open>buildBrief\<close>

text \<open>
  The template literal of lines 211-239, line by line. The character \<open>\<le>\<close> of the second
  line is its three bytes in UTF-8. The text \<^verbatim>\<open>  // Reuse for HN stories\<close> stands inside
  the template literal, after the second interpolation of \<^verbatim>\<open>ycSummary\<close>, and so is part
  of the string.
\<close>

definition prompt_head :: "string list" where
  "prompt_head =
     [[],
      ''Give me a crisp bullet summary ('' @ [CHR 0xE2, CHR 0x89, CHR 0xA4] @
        ''3 sentences each) of:'',
      ''1. notable AI research news (especially large-model papers),'',
      ''2. any YC/Techstars company milestones,'',
      ''3. top world news,'',
      ''4. top products launched on Product Hunt today,'',
      ''5. top stories from Hacker News,'',
      ''6. market close snapshot (S&P 500, Nasdaq, Bitcoin).'',
      [],
      ''Raw feeds:'']"

definition prompt_foot :: string where
  "prompt_foot =
     ''Format the response as a clean, professional daily brief using HTML with clear '' @
     ''sections (use <h2> for headings), bullet points (<ul><li>), and ensure it'' @
     [CHR 0x27] @ ''s mobile-friendly with sans-serif font and good spacing. For each '' @
     ''summary bullet, include a clickable link (<a href='' @ [CHR 0x22] @ ''original_url'' @
     [CHR 0x22] @ ''>Read more</a>) to the source article or paper. Do not include any '' @
     ''code fences like ``` in the output.''"

definition buildPrompt :: "string \<Rightarrow> string \<Rightarrow> string \<Rightarrow> string \<Rightarrow> string \<Rightarrow> string" where
  "buildPrompt aiSummary ycSummary worldSummary productHuntSummary marketData =
     join [newline]
       (prompt_head @
        [''AI:'',
         aiSummary,
         [],
         ''YC/TECH:'',
         ycSummary,
         [],
         ''WORLD NEWS:'',
         worldSummary,
         [],
         ''PRODUCT HUNT:'',
         productHuntSummary,
         [],
         ''HACKER NEWS:'',
         ycSummary @ ''  // Reuse for HN stories'',
         [],
         ''MARKETS:'',
         marketData,
         [],
         prompt_foot])"

definition fallback :: string where
  "fallback = ''Failed to generate brief''"

text \<open>
  Lines 169-209: the five collectors under \<^verbatim>\<open>Promise.all\<close>, then the three summaries and
  the prompt. The collectors run concurrently; none of them reads what another one
  writes, so the model runs them in the order of the array.
\<close>

definition collectPrompt :: "env \<Rightarrow> error + string" where
  "collectPrompt e =
     and_then (fetchAndParseRSS e ''http://arxiv.org/rss/cs.AI'') (\<lambda>aiFeed.
     and_then (fetchAndParseRSS e ''https://news.ycombinator.com/rss'') (\<lambda>ycFeed.
     and_then (fetchAndParseRSS e ''https://rss.nytimes.com/services/xml/rss/nyt/World.xml'')
       (\<lambda>worldFeed.
     and_then (fetchProductHuntPosts e) (\<lambda>productHuntSummary.
     and_then (fetchMarketData e) (\<lambda>marketData.
       Inr (buildPrompt (feedSummary aiFeed) (feedSummary ycFeed) (feedSummary worldFeed)
              productHuntSummary marketData))))))"

definition chatRequest :: "string \<Rightarrow> chat_request" where
  "chatRequest prompt =
     \<lparr>model = ''gpt-4o-mini'', messages = [(''user'', prompt)], temperature = 7 / 10,
      max_tokens = 1500\<rparr>"

text \<open>
  Lines 241-248. \<^verbatim>\<open>completion.choices[0].message\<close> is a TypeError without a first choice;
  \<^verbatim>\<open>content || "Failed to generate brief"\<close> takes the fallback for null and for the
  empty string.
\<close>

definition summarize :: "env \<Rightarrow> string \<Rightarrow> error + string" where
  "summarize e prompt =
     (case openai_create e (chatRequest prompt) of
        Rejects \<Rightarrow> Inl OpenAIError
      | Resolves completion \<Rightarrow>
          (case choices completion of
             [] \<Rightarrow> Inl TypeError
           | c # _ \<Rightarrow>
               (case content (message c) of
                  None \<Rightarrow> Inr fallback
                | Some s \<Rightarrow> Inr (if s = [] then fallback else s))))"

text \<open>The function: the \<^verbatim>\<open>catch\<close> block logs and throws the error again.\<close>

definition buildBrief :: "env \<Rightarrow> error + string" where
  "buildBrief e =
     (case and_then (collectPrompt e) (summarize e) of
        Inl err \<Rightarrow> Inl err
      | Inr brief \<Rightarrow> Inr brief)"

section \<open>sendEmail and the handler\<close>

text \<open>
  The request \<^verbatim>\<open>sendEmail\<close> posts to the Resend API. The state of an invocation is the
  list of these requests, in the order they were submitted.
\<close>

record email =
  from_addr :: string
  to_addrs :: "string list"
  subject :: string
  html :: string

definition resendUrl :: string where
  "resendUrl = ''https://api.resend.com/emails''"

definition emailRequest :: "env \<Rightarrow> string \<Rightarrow> email" where
  "emailRequest e body =
     \<lparr>from_addr = ''Daily Brief <on@resend.dev>'',
      to_addrs = [''alhait.omar@gmail.com''],
      subject = ''Your Daily Brief '' @ [CHR 0xE2, CHR 0x80, CHR 0x94] @ '' '' @ localeDate e,
      html = body\<rparr>"

definition sendEmail :: "env \<Rightarrow> string \<Rightarrow> email list \<Rightarrow> (error + unit) \<times> email list" where
  "sendEmail e body sent =
     (let sent' = sent @ [emailRequest e body] in
      case fetch e resendUrl of
        Rejects \<Rightarrow> (Inl NetworkError, sent')
      | Resolves response \<Rightarrow>
          if \<not> ok response then
            (case body_json response of
               Rejects \<Rightarrow> (Inl BodyError, sent')
             | Resolves errorData \<Rightarrow>
                 (case get errorData ''message'' of
                    Inl err \<Rightarrow> (Inl err, sent')
                  | Inr msg \<Rightarrow>
                      (case (if truthy msg then toString_opt (num2str e) msg
                             else Inr (statusText response)) of
                         Inl err \<Rightarrow> (Inl err, sent')
                       | Inr reason \<Rightarrow> (Inl (ResendError reason), sent'))))
          else (Inr (), sent'))"

datatype payload =
    MethodNotAllowed
  | Success string
  | Failure error

record http_result =
  code :: nat
  payload :: payload

text \<open>The exported handler; \<open>httpMethod\<close> is \<^verbatim>\<open>req.method\<close>.\<close>

definition handler :: "env \<Rightarrow> string \<Rightarrow> email list \<Rightarrow> http_result \<times> email list" where
  "handler e httpMethod sent =
     (if httpMethod \<noteq> ''POST'' then (\<lparr>code = 405, payload = MethodNotAllowed\<rparr>, sent)
      else
        case buildBrief e of
          Inl err \<Rightarrow> (\<lparr>code = 500, payload = Failure err\<rparr>, sent)
        | Inr brief \<Rightarrow>
            (case sendEmail e brief sent of
               (Inl err, sent') \<Rightarrow> (\<lparr>code = 500, payload = Failure err\<rparr>, sent')
             | (Inr u, sent') \<Rightarrow> (\<lparr>code = 200, payload = Success (isoNow e)\<rparr>, sent')))"

section \<open>The claims in the words of the specification, and sample inputs\<close>


text \<open>
  The rendering as the specification words it: the placeholder for exactly the missing
  fields, every present field with its own value.
\<close>

definition value_or :: "string list option \<Rightarrow> string \<Rightarrow> string" where
  "value_or field placeholder = (case field of None \<Rightarrow> placeholder | Some _ \<Rightarrow> first_elem field)"

definition renderItem_spec :: "FeedItem \<Rightarrow> string" where
  "renderItem_spec it =
     value_or (title it) ''No title'' @ '' ('' @
     value_or (link it) ''No link'' @ '') - '' @
     value_or (description it) ''No description''"

text \<open>The value the code renders for a field: its first element when that is a non-empty string.\<close>

definition shown :: "string list option \<Rightarrow> string \<Rightarrow> string" where
  "shown field placeholder = (if present field then first_elem field else placeholder)"

definition sample_item :: "nat \<Rightarrow> FeedItem" where
  "sample_item n =
     \<lparr>title = Some [''Story '' @ replicate n CHR ''I''], description = Some [''text''],
      link = Some [''http://example.org/'' @ replicate n CHR ''I''], pubDate = None\<rparr>"


definition untitled_item :: FeedItem where
  "untitled_item =
     \<lparr>title = None, description = Some [''d''], link = Some [[]], pubDate = None\<rparr>"

text \<open>
  The items \<^verbatim>\<open>result.rss?.channel?.[0]?.item\<close> finds in a parsed document, if the document
  has the structure rss, channel, item.
\<close>

definition feed_items :: "RSSFeed \<Rightarrow> FeedItem list option" where
  "feed_items doc =
     (case rss doc of
        None \<Rightarrow> None
      | Some r \<Rightarrow>
          (case channel r of
             None \<Rightarrow> None
           | Some [] \<Rightarrow> None
           | Some (c # _) \<Rightarrow> item c))"

text \<open>The prompt of an invocation.\<close>

definition promptOf :: "env \<Rightarrow> string" where
  "promptOf e = (case collectPrompt e of Inl err \<Rightarrow> [] | Inr prompt \<Rightarrow> prompt)"

text \<open>An invocation in which every call to the outside rejects, and variations of it.\<close>

definition offline :: env where
  "offline =
     \<lparr>fetch = (\<lambda>url. Rejects), parseStringPromise = (\<lambda>xml. Rejects),
      openai_create = (\<lambda>req. Rejects), alphaVantageApiKey = Some ''demo'',
      num2str = (\<lambda>r. []), localeDate = ''11/3/2026'', isoNow = ''2026-11-03T15:00:00.000Z''\<rparr>"

definition respond :: "bool \<Rightarrow> nat \<Rightarrow> string promise \<Rightarrow> json promise \<Rightarrow> response" where
  "respond good st txt js =
     \<lparr>ok = good, status = st, statusText = [], body_text = txt, body_json = js\<rparr>"

definition one_item_doc :: RSSFeed where
  "one_item_doc = \<lparr>rss = Some \<lparr>channel = Some [\<lparr>item = Some [sample_item 1]\<rparr>]\<rparr>\<rparr>"

definition no_channel_doc :: RSSFeed where
  "no_channel_doc = \<lparr>rss = Some \<lparr>channel = None\<rparr>\<rparr>"

definition unavailable_feed :: env where
  \<comment> \<open>every feed URL answers 503, with a body that is a feed of one item\<close>
  "unavailable_feed =
     offline\<lparr>fetch := (\<lambda>url. Resolves (respond False 503 (Resolves ''<rss/>'') Rejects)),
             parseStringPromise := (\<lambda>xml. Resolves (Some one_item_doc))\<rparr>"

definition unreadable_body :: env where
  "unreadable_body = offline\<lparr>fetch := (\<lambda>url. Resolves (respond True 200 Rejects Rejects))\<rparr>"

definition malformed_xml :: env where
  "malformed_xml =
     offline\<lparr>fetch := (\<lambda>url. Resolves (respond True 200 (Resolves ''<rss'') Rejects))\<rparr>"

definition null_document :: env where
  "null_document =
     offline\<lparr>fetch := (\<lambda>url. Resolves (respond True 200 (Resolves []) Rejects)),
             parseStringPromise := (\<lambda>xml. Resolves None)\<rparr>"

definition no_channel :: env where
  "no_channel =
     offline\<lparr>fetch := (\<lambda>url. Resolves (respond True 200 (Resolves ''<rss/>'') Rejects)),
             parseStringPromise := (\<lambda>xml. Resolves (Some no_channel_doc))\<rparr>"

definition silent_completion :: completion where
  "silent_completion = \<lparr>choices = [\<lparr>message = \<lparr>content = None\<rparr>\<rparr>]\<rparr>"

definition empty_completion :: completion where
  "empty_completion = \<lparr>choices = [\<lparr>message = \<lparr>content = Some []\<rparr>\<rparr>]\<rparr>"

definition silent_model :: env where
  \<comment> \<open>the completion API answers without content, the Resend API accepts\<close>
  "silent_model =
     offline\<lparr>fetch := (\<lambda>url. if url = resendUrl
                              then Resolves (respond True 200 Rejects (Resolves (JObj [])))
                              else Rejects),
             openai_create := (\<lambda>req. Resolves silent_completion)\<rparr>"

definition empty_model :: env where
  "empty_model = silent_model\<lparr>openai_create := (\<lambda>req. Resolves empty_completion)\<rparr>"

text \<open>
  The section of a prompt under a header: the lines after the header line, up to the next
  empty line.
\<close>

definition section_lines :: "string \<Rightarrow> string \<Rightarrow> string list" where
  "section_lines header prompt =
     takeWhile (\<lambda>l. l \<noteq> []) (drop 1 (dropWhile (\<lambda>l. l \<noteq> header) (split_on newline prompt)))"

definition hacker_news_only :: env where
  \<comment> \<open>only the Hacker News feed answers, with one item\<close>
  "hacker_news_only =
     offline\<lparr>fetch := (\<lambda>url. if url = ''https://news.ycombinator.com/rss''
                              then Resolves (respond True 200 (Resolves ''<rss/>'') Rejects)
                              else Rejects),
             parseStringPromise := (\<lambda>xml. Resolves (Some one_item_doc))\<rparr>"

definition no_choice :: env where
  \<comment> \<open>the completion API answers with an empty list of choices, the Resend API accepts\<close>
  "no_choice = silent_model\<lparr>openai_create := (\<lambda>req. Resolves \<lparr>choices = []\<rparr>)\<rparr>"

text \<open>
  A value that ToString converts without throwing: no object with an own property
  \<^verbatim>\<open>toString\<close>, neither the value itself nor an element of it.
\<close>

fun printable :: "json \<Rightarrow> bool" where
  "printable (JArr xs) = list_all printable xs"
| "printable (JObj kvs) = (''toString'' \<notin> set (map fst kvs))"
| "printable v = True"

text \<open>
  The dates of a time series in ascending order of their code units, its two most recent
  dates (the last two of them), and the close of a date: the number \<^verbatim>\<open>parseFloat\<close> reads
  from the field \<^verbatim>\<open>4. close\<close> of the date's entry (NaN if the entry has no such field).
  There is no close when the entry is null or the field cannot be converted to a string.
\<close>

definition dates_of :: "json \<Rightarrow> string list" where
  "dates_of timeSeries = sort_key utf16 (object_keys timeSeries)"

definition latest_date :: "json \<Rightarrow> string" where
  "latest_date timeSeries = last (dates_of timeSeries)"

definition previous_date :: "json \<Rightarrow> string" where
  "previous_date timeSeries = last (butlast (dates_of timeSeries))"

definition close_on :: "json \<Rightarrow> string \<Rightarrow> jsnum option" where
  "close_on timeSeries d =
     (case map_of (own_entries timeSeries) d of
        None \<Rightarrow> None
      | Some JNull \<Rightarrow> None
      | Some entry \<Rightarrow>
          (case map_of (own_entries entry) closeKey of
             None \<Rightarrow> Some NaN
           | Some raw \<Rightarrow> if printable raw then Some (number_of raw) else None))"

text \<open>
  A number that is a double: rounding leaves it as it is. Every JavaScript number is a
  double; the type \<open>jsnum\<close> also holds the other rationals.
\<close>

definition is_double :: "jsnum \<Rightarrow> bool" where
  "is_double x = (case x of Fin r \<Rightarrow> r = 0 \<or> round_double (r < 0) \<bar>r\<bar> = Fin r | _ \<Rightarrow> True)"

text \<open>A decimal with two places after the point: the value nearest to \<open>c\<close>, ties away from zero.\<close>

definition two_decimals :: "rat \<Rightarrow> string" where
  "two_decimals c =
     (let n = round_half_up (\<bar>c\<bar> * 100) in
      (if c < 0 then ''-'' else []) @ show_nat (n div 100) @ ''.'' @
      [digit_char (n div 10 mod 10), digit_char (n mod 10)])"

definition daily :: "string \<Rightarrow> json" where
  \<comment> \<open>an entry of a daily time series with the given close\<close>
  "daily c =
     JObj [(''1. open'', JStr ''100.5000''), (''2. high'', JStr ''111.0000''),
           (''3. low'', JStr ''99.0000''), (''4. close'', JStr c), (''5. volume'', JStr ''1200'')]"

definition series :: "string \<Rightarrow> string \<Rightarrow> json" where
  \<comment> \<open>three days, newest first as Alpha Vantage sends them\<close>
  "series previous latest =
     JObj [(''2024-01-03'', daily latest), (''2024-01-02'', daily previous),
           (''2023-12-29'', daily ''95.2500'')]"

definition bare_series :: json where
  \<comment> \<open>three days whose entries carry no prices\<close>
  "bare_series =
     JObj [(''2024-01-03'', JObj []), (''2024-01-02'', JObj []), (''2023-12-29'', JObj [])]"

text \<open>
  The failures of one instrument that the collector of daily-brief.ts detects. For an
  equity: the fetch rejects, the status is not ok, the body is not JSON, the body carries
  no time series (as the answers of Alpha Vantage that report an error or a rate limit),
  the series has fewer than two dates, or one of the two most recent dates has no close.
\<close>

definition equity_failure :: "env \<Rightarrow> string \<Rightarrow> bool" where
  "equity_failure e symbol =
     (case fetch e (alphaVantageUrl e symbol) of
        Rejects \<Rightarrow> True
      | Resolves r \<Rightarrow>
          \<not> ok r \<or>
          (case body_json r of
             Rejects \<Rightarrow> True
           | Resolves data \<Rightarrow>
               (case get data ''Time Series (Daily)'' of
                  Inl err \<Rightarrow> True
                | Inr None \<Rightarrow> True
                | Inr (Some ts) \<Rightarrow>
                    \<not> truthy (Some ts) \<or> length (object_keys ts) < 2 \<or>
                    close_on ts (latest_date ts) = None \<or>
                    close_on ts (previous_date ts) = None)))"

text \<open>
  For Bitcoin: the fetch rejects, the status is not ok, the body is not JSON, it has no
  entry \<^verbatim>\<open>bitcoin\<close>, or the price or the change of the entry is not a number.
\<close>

definition number_field :: "json option \<Rightarrow> string \<Rightarrow> bool" where
  "number_field v k = (case get_opt v k of Inr (Some (JNum n)) \<Rightarrow> True | _ \<Rightarrow> False)"

definition bitcoin_failure :: "env \<Rightarrow> bool" where
  "bitcoin_failure e =
     (case fetch e coinGeckoUrl of
        Rejects \<Rightarrow> True
      | Resolves r \<Rightarrow>
          \<not> ok r \<or>
          (case body_json r of
             Rejects \<Rightarrow> True
           | Resolves cgData \<Rightarrow>
               (case get cgData ''bitcoin'' of
                  Inl err \<Rightarrow> True
                | Inr btcData \<Rightarrow>
                    \<not> truthy btcData \<or> \<not> number_field btcData ''usd'' \<or>
                    \<not> number_field btcData ''usd_24h_change'')))"

text \<open>
  For the earlier revisions: the answer to a URL cannot be read when the fetch rejects or
  the body is not JSON, or is the JSON value null. \<open>answer\<close> is the answer that is read.
\<close>

definition quote_unread :: "env \<Rightarrow> string \<Rightarrow> bool" where
  "quote_unread e url =
     (case fetch e url of
        Rejects \<Rightarrow> True
      | Resolves r \<Rightarrow> (case body_json r of Rejects \<Rightarrow> True | Resolves d \<Rightarrow> d = JNull))"

definition answer :: "env \<Rightarrow> string \<Rightarrow> json" where
  "answer e url =
     (case fetch e url of
        Rejects \<Rightarrow> JNull
      | Resolves r \<Rightarrow> (case body_json r of Rejects \<Rightarrow> JNull | Resolves d \<Rightarrow> d))"

text \<open>
  The field \<open>inner\<close> of the member \<open>outer\<close> of an answer, and what the snapshot shows for
  it: the field if the answer has it with a value that is not falsy, \<^verbatim>\<open>N/A\<close> otherwise.
\<close>

definition field_of :: "json \<Rightarrow> string \<Rightarrow> string \<Rightarrow> json option" where
  "field_of obj outer inner =
     (case map_of (own_entries obj) outer of
        None \<Rightarrow> None
      | Some JNull \<Rightarrow> None
      | Some quoted \<Rightarrow> map_of (own_entries quoted) inner)"

definition shown_field :: "json \<Rightarrow> string \<Rightarrow> string \<Rightarrow> json" where
  "shown_field obj outer inner =
     (if truthy (field_of obj outer inner) then the (field_of obj outer inner) else JStr ''N/A'')"

definition text_of :: "(rat \<Rightarrow> string) \<Rightarrow> json \<Rightarrow> string" where
  \<comment> \<open>the string of a printable value\<close>
  "text_of n2s v = (case js_toString n2s v of Inl err \<Rightarrow> [] | Inr s \<Rightarrow> s)"

text \<open>The five values the snapshot of the earlier revisions shows.\<close>

definition shown_fields :: "env \<Rightarrow> json list" where
  "shown_fields e =
     [shown_field (answer e (globalQuoteUrl e ''^GSPC'')) ''Global Quote'' ''05. price'',
      shown_field (answer e (globalQuoteUrl e ''^GSPC'')) ''Global Quote'' ''10. change percent'',
      shown_field (answer e (globalQuoteUrl e ''^IXIC'')) ''Global Quote'' ''05. price'',
      shown_field (answer e (globalQuoteUrl e ''^IXIC'')) ''Global Quote'' ''10. change percent'',
      shown_field (answer e (exchangeRateUrl e)) ''Realtime Currency Exchange Rate''
        ''5. Exchange Rate'']"

text \<open>
  The failures the collector of the earlier revisions detects: an answer that cannot be
  read, or a shown value that cannot be converted to a string.
\<close>

definition v1_failure :: "env \<Rightarrow> bool" where
  "v1_failure e \<longleftrightarrow>
     quote_unread e (globalQuoteUrl e ''^GSPC'') \<or> quote_unread e (globalQuoteUrl e ''^IXIC'')
     \<or> quote_unread e (exchangeRateUrl e) \<or> \<not> list_all printable (shown_fields e)"

text \<open>
  Sample answers of the providers. \<open>market\<close> is an invocation in which Alpha Vantage
  answers the two daily series and the global quote of the S&P 500 and the exchange rate,
  and CoinGecko answers the price of Bitcoin.
\<close>

definition json_ok :: "json \<Rightarrow> response promise" where
  "json_ok j = Resolves (respond True 200 Rejects (Resolves j))"

definition time_series :: "json \<Rightarrow> json" where
  "time_series ts = JObj [(''Meta Data'', JObj [(''2. Symbol'', JStr ''SPY'')]), (''Time Series (Daily)'', ts)]"

definition rate_limit_note :: json where
  "rate_limit_note = JObj [(''Note'', JStr ''Thank you for using Alpha Vantage!'')]"

definition bitcoin_price :: json where
  "bitcoin_price =
     JObj [(''bitcoin'', JObj [(''usd'', JNum (Fin 64000)), (''usd_24h_change'', JNum (Fin (- (5 / 4))))])]"

definition market :: "json \<Rightarrow> json \<Rightarrow> json \<Rightarrow> env" where
  "market spy qqq ixic =
     offline\<lparr>fetch := (\<lambda>url.
       if url = ''https://www.alphavantage.co/query?function=TIME_SERIES_DAILY&symbol=SPY&apikey=demo''
       then json_ok spy
       else if url = ''https://www.alphavantage.co/query?function=TIME_SERIES_DAILY&symbol=QQQ&apikey=demo''
       then json_ok qqq
       else if url = coinGeckoUrl then json_ok bitcoin_price
       else if url = ''https://www.alphavantage.co/query?function=GLOBAL_QUOTE&symbol=^GSPC&apikey=demo''
       then json_ok (JObj [(''Global Quote'',
              JObj [(''01. symbol'', JStr ''^GSPC''), (''05. price'', JStr ''5000.0000''),
                    (''10. change percent'', JStr ''0.5000%'')])])
       else if url = ''https://www.alphavantage.co/query?function=GLOBAL_QUOTE&symbol=^IXIC&apikey=demo''
       then json_ok ixic
       else if url = ''https://www.alphavantage.co/query?function=CURRENCY_EXCHANGE_RATE&from_currency=BTC&to_currency=USD&apikey=demo''
       then json_ok (JObj [(''Realtime Currency Exchange Rate'',
              JObj [(''5. Exchange Rate'', JStr ''64000.00000000'')])])
       else Rejects)\<rparr>"

definition throttled :: env where
  \<comment> \<open>Alpha Vantage answers the requests for the Nasdaq with its note on the rate limit\<close>
  "throttled =
     market (time_series (series ''100.0000'' ''110.0000'')) rate_limit_note rate_limit_note"

definition zero_close :: env where
  \<comment> \<open>the previous close of SPY is zero\<close>
  "zero_close =
     market (time_series (series ''0.0000'' ''110.0000''))
       (time_series (series ''400.0000'' ''398.0000'')) rate_limit_note"

definition no_prices :: env where
  \<comment> \<open>the series of SPY carries dates without prices\<close>
  "no_prices =
     market (time_series bare_series) (time_series (series ''400.0000'' ''398.0000''))
       rate_limit_note"

text \<open>
  The keys of a daily time series are calendar dates written \<^verbatim>\<open>YYYY-MM-DD\<close>: year, month
  and day in decimal digits of fixed width.
\<close>

fun fixed_width :: "nat \<Rightarrow> nat \<Rightarrow> string" where
  "fixed_width 0 n = []"
| "fixed_width (Suc w) n = fixed_width w (n div 10) @ [digit_char (n mod 10)]"

definition iso_date :: "nat \<times> nat \<times> nat \<Rightarrow> string" where
  "iso_date ymd =
     (case ymd of (y, m, d) \<Rightarrow> fixed_width 4 y @ ''-'' @ fixed_width 2 m @ ''-'' @ fixed_width 2 d)"

definition earlier :: "nat \<times> nat \<times> nat \<Rightarrow> nat \<times> nat \<times> nat \<Rightarrow> bool" where
  \<comment> \<open>the order of the calendar\<close>
  "earlier a b =
     (case a of (y, m, d) \<Rightarrow> case b of (y', m', d') \<Rightarrow>
        y < y' \<or> (y = y' \<and> (m < m' \<or> (m = m' \<and> d < d'))))"

section \<open>Properties of the rendering\<close>

lemma first_or_present: "present f \<Longrightarrow> first_or f p = first_elem f"
  by (auto simp: present_def first_or_def first_elem_def split: option.splits list.splits)

lemma first_or_absent: "\<not> present f \<Longrightarrow> first_or f p = p"
  by (auto simp: present_def first_or_def split: option.splits list.splits)

lemma split_on_nonempty: "split_on c s \<noteq> []"
  by (induction s) (auto split: list.splits)

lemma split_on_no_sep: "c \<notin> set s \<Longrightarrow> split_on c s = [s]"
  by (induction s) auto

lemma split_on_append:
  "c \<notin> set l \<Longrightarrow> split_on c (l @ c # rest) = l # split_on c rest"
  by (induction l) auto

lemma split_on_join:
  "ls \<noteq> [] \<Longrightarrow> \<forall>l \<in> set ls. c \<notin> set l \<Longrightarrow> split_on c (join [c] ls) = ls"
proof (induction "[c]" ls rule: join.induct)
  case 1
  then show ?case by simp
next
  case (2 x)
  then show ?case by (simp add: split_on_no_sep)
next
  case (3 x y ys)
  then show ?case by (simp add: split_on_append)
qed

lemma renderItem_well_formed:
  "well_formed it \<Longrightarrow>
   renderItem it =
     first_elem (title it) @ '' ('' @ first_elem (link it) @ '') - '' @
     first_elem (description it)"
  by (simp add: well_formed_def renderItem_def first_or_present)

lemma renderItem_single_line:
  "well_formed it \<Longrightarrow> single_line it \<Longrightarrow> newline \<notin> set (renderItem it)"
  by (simp add: renderItem_well_formed single_line_def newline_def)









lemma first_or_shown: "first_or f p = shown f p"
  by (cases "present f") (simp_all add: shown_def first_or_present first_or_absent)

text \<open>
  Claim C6, as amended. The rendering puts the placeholder for exactly the fields that are
  absent, are an empty array, or have the empty string as first element, and the first
  element itself for every other field, in the format
  \<^verbatim>\<open>{title} ({link}) - {description}\<close>; the oldest revision renders
  \<^verbatim>\<open>{title} - {description}\<close> in the same way, without the link.
\<close>

theorem renderItem_placeholders:
  "renderItem it =
     shown (title it) ''No title'' @ '' ('' @ shown (link it) ''No link'' @ '') - '' @
     shown (description it) ''No description''
   \<and> renderItem_v1 it =
     shown (title it) ''No title'' @ '' - '' @ shown (description it) ''No description''"
  by (simp add: renderItem_def renderItem_v1_def first_or_shown)

text \<open>
  Claim C6 as stated fails: an item without a title whose link is present and holds the
  empty string is rendered with the placeholder for the link, not with the link's value.
\<close>

theorem renderItem_spec_counterexample:
  "title untitled_item = None \<and> link untitled_item = Some [[]]
   \<and> renderItem untitled_item = ''No title (No link) - d''
   \<and> renderItem_spec untitled_item = ''No title () - d''
   \<and> renderItem untitled_item \<noteq> renderItem_spec untitled_item"
  by (simp add: untitled_item_def renderItem_def renderItem_spec_def first_or_def value_or_def
      first_elem_def)


section \<open>fetchAndParseRSS never throws\<close>

lemma fetchAndParseRSS_total: "\<exists>items. fetchAndParseRSS e url = Inr items"
  by (simp add: fetchAndParseRSS_def split: sum.splits)

lemma fetchAndParseRSS_parsed:
  "fetch e url = Resolves r \<Longrightarrow> body_text r = Resolves xml \<Longrightarrow>
   parseStringPromise e xml = Resolves (Some doc) \<Longrightarrow>
   fetchAndParseRSS e url = Inr (case feed_items doc of None \<Rightarrow> [] | Some items \<Rightarrow> items)"
  by (simp add: fetchAndParseRSS_def fetchAndParseRSS_try_def feed_items_def
      split: option.splits list.splits)

text \<open>
  Claim C2, as amended. \<^verbatim>\<open>fetchAndParseRSS\<close> never throws. It returns the empty list when
  the fetch rejects, when reading the body rejects, when the XML parser rejects or
  resolves to null, and when the parsed document lacks the structure rss, channel, item.
  The status of the response is not read: whenever the body parses to a document with
  items, these items are returned.
\<close>

theorem fetchAndParseRSS_failures:
  "(\<exists>items. fetchAndParseRSS e url = Inr items)
   \<and> (fetch e url = Rejects \<longrightarrow> fetchAndParseRSS e url = Inr [])
   \<and> (\<forall>r. fetch e url = Resolves r \<and> body_text r = Rejects \<longrightarrow>
          fetchAndParseRSS e url = Inr [])
   \<and> (\<forall>r xml. fetch e url = Resolves r \<and> body_text r = Resolves xml \<and>
          (parseStringPromise e xml = Rejects \<or> parseStringPromise e xml = Resolves None) \<longrightarrow>
          fetchAndParseRSS e url = Inr [])
   \<and> (\<forall>r xml doc. fetch e url = Resolves r \<and> body_text r = Resolves xml \<and>
          parseStringPromise e xml = Resolves (Some doc) \<and> feed_items doc = None \<longrightarrow>
          fetchAndParseRSS e url = Inr [])
   \<and> (\<forall>r xml doc items. fetch e url = Resolves r \<and> body_text r = Resolves xml \<and>
          parseStringPromise e xml = Resolves (Some doc) \<and> feed_items doc = Some items \<longrightarrow>
          fetchAndParseRSS e url = Inr items)"
proof -
  have rejected: "fetch e url = Rejects \<longrightarrow> fetchAndParseRSS e url = Inr []"
    by (simp add: fetchAndParseRSS_def fetchAndParseRSS_try_def)
  have unread: "\<forall>r. fetch e url = Resolves r \<and> body_text r = Rejects \<longrightarrow>
      fetchAndParseRSS e url = Inr []"
    by (simp add: fetchAndParseRSS_def fetchAndParseRSS_try_def)
  have unparsed: "\<forall>r xml. fetch e url = Resolves r \<and> body_text r = Resolves xml \<and>
      (parseStringPromise e xml = Rejects \<or> parseStringPromise e xml = Resolves None) \<longrightarrow>
      fetchAndParseRSS e url = Inr []"
    by (auto simp: fetchAndParseRSS_def fetchAndParseRSS_try_def)
  have parsed: "\<forall>r xml doc. fetch e url = Resolves r \<and> body_text r = Resolves xml \<and>
      parseStringPromise e xml = Resolves (Some doc) \<and> feed_items doc = None \<longrightarrow>
      fetchAndParseRSS e url = Inr []"
    by (auto simp: fetchAndParseRSS_parsed)
  have found: "\<forall>r xml doc items. fetch e url = Resolves r \<and> body_text r = Resolves xml \<and>
      parseStringPromise e xml = Resolves (Some doc) \<and> feed_items doc = Some items \<longrightarrow>
      fetchAndParseRSS e url = Inr items"
    by (auto simp: fetchAndParseRSS_parsed)
  from fetchAndParseRSS_total rejected unread unparsed parsed found show ?thesis
    by blast
qed

theorem fetchAndParseRSS_failures_witness:
  "fetch offline ''http://arxiv.org/rss/cs.AI'' = Rejects
   \<and> fetchAndParseRSS offline ''http://arxiv.org/rss/cs.AI'' = Inr []
   \<and> fetchAndParseRSS unreadable_body ''http://arxiv.org/rss/cs.AI'' = Inr []
   \<and> fetchAndParseRSS malformed_xml ''http://arxiv.org/rss/cs.AI'' = Inr []
   \<and> fetchAndParseRSS null_document ''http://arxiv.org/rss/cs.AI'' = Inr []
   \<and> feed_items no_channel_doc = None
   \<and> fetchAndParseRSS no_channel ''http://arxiv.org/rss/cs.AI'' = Inr []
   \<and> feed_items one_item_doc = Some [sample_item 1]
   \<and> fetchAndParseRSS unavailable_feed ''http://arxiv.org/rss/cs.AI'' = Inr [sample_item 1]"
proof -
  let ?u = "''http://arxiv.org/rss/cs.AI''"
  have a: "fetch offline ?u = Rejects"
    by (simp add: offline_def)
  have b: "fetch unreadable_body ?u = Resolves (respond True 200 Rejects Rejects)
      \<and> body_text (respond True 200 Rejects Rejects) = Rejects"
    by (simp add: unreadable_body_def offline_def respond_def)
  have c: "fetch malformed_xml ?u = Resolves (respond True 200 (Resolves ''<rss'') Rejects)
      \<and> body_text (respond True 200 (Resolves ''<rss'') Rejects) = Resolves ''<rss''
      \<and> (parseStringPromise malformed_xml ''<rss'' = Rejects
          \<or> parseStringPromise malformed_xml ''<rss'' = Resolves None)"
    by (simp add: malformed_xml_def offline_def respond_def)
  have d: "fetch null_document ?u = Resolves (respond True 200 (Resolves []) Rejects)
      \<and> body_text (respond True 200 (Resolves []) Rejects) = Resolves []
      \<and> (parseStringPromise null_document [] = Rejects
          \<or> parseStringPromise null_document [] = Resolves None)"
    by (simp add: null_document_def offline_def respond_def)
  have f: "fetch no_channel ?u = Resolves (respond True 200 (Resolves ''<rss/>'') Rejects)
      \<and> body_text (respond True 200 (Resolves ''<rss/>'') Rejects) = Resolves ''<rss/>''
      \<and> parseStringPromise no_channel ''<rss/>'' = Resolves (Some no_channel_doc)
      \<and> feed_items no_channel_doc = None"
    by (simp add: no_channel_def offline_def respond_def no_channel_doc_def feed_items_def)
  have g: "fetch unavailable_feed ?u = Resolves (respond False 503 (Resolves ''<rss/>'') Rejects)
      \<and> body_text (respond False 503 (Resolves ''<rss/>'') Rejects) = Resolves ''<rss/>''
      \<and> parseStringPromise unavailable_feed ''<rss/>'' = Resolves (Some one_item_doc)
      \<and> feed_items one_item_doc = Some [sample_item 1]"
    by (simp add: unavailable_feed_def offline_def respond_def one_item_doc_def feed_items_def)
  have ra: "fetchAndParseRSS offline ?u = Inr []"
    using a fetchAndParseRSS_failures [of offline ?u] by blast
  have rb: "fetchAndParseRSS unreadable_body ?u = Inr []"
    using b fetchAndParseRSS_failures [of unreadable_body ?u] by blast
  have rc: "fetchAndParseRSS malformed_xml ?u = Inr []"
    using c fetchAndParseRSS_failures [of malformed_xml ?u] by blast
  have rd: "fetchAndParseRSS null_document ?u = Inr []"
    using d fetchAndParseRSS_failures [of null_document ?u] by blast
  have rf: "fetchAndParseRSS no_channel ?u = Inr []"
    using f fetchAndParseRSS_failures [of no_channel ?u] by blast
  have rg: "fetchAndParseRSS unavailable_feed ?u = Inr [sample_item 1]"
    using g fetchAndParseRSS_failures [of unavailable_feed ?u] by blast
  from a ra rb rc rd f rf g rg show ?thesis
    by simp
qed

text \<open>
  Claim C2 as stated fails for a status outside 2xx: a response with status 503 whose body
  is a feed of one item gives that item, not the empty list.
\<close>

theorem fetchAndParseRSS_status_counterexample:
  "fetch unavailable_feed ''https://news.ycombinator.com/rss'' =
     Resolves (respond False 503 (Resolves ''<rss/>'') Rejects)
   \<and> \<not> ok (respond False 503 (Resolves ''<rss/>'') Rejects)
   \<and> status (respond False 503 (Resolves ''<rss/>'') Rejects) = 503
   \<and> fetchAndParseRSS unavailable_feed ''https://news.ycombinator.com/rss'' = Inr [sample_item 1]
   \<and> fetchAndParseRSS unavailable_feed ''https://news.ycombinator.com/rss'' \<noteq> Inr []"
  by (simp add: unavailable_feed_def offline_def respond_def one_item_doc_def
      fetchAndParseRSS_def fetchAndParseRSS_try_def)

section \<open>The handler\<close>

lemma fetchProductHuntPosts_total: "\<exists>p. fetchProductHuntPosts e = Inr p"
  by (cases "fetchProductHuntPosts_try e") (simp_all add: fetchProductHuntPosts_def)

lemma fetchMarketData_total: "\<exists>m. fetchMarketData e = Inr m"
  by (cases "fetchMarketData_try e") (simp_all add: fetchMarketData_def)

lemma collectPrompt_total: "\<exists>prompt. collectPrompt e = Inr prompt"
proof -
  obtain a y w where "fetchAndParseRSS e ''http://arxiv.org/rss/cs.AI'' = Inr a"
    and "fetchAndParseRSS e ''https://news.ycombinator.com/rss'' = Inr y"
    and "fetchAndParseRSS e ''https://rss.nytimes.com/services/xml/rss/nyt/World.xml'' = Inr w"
    using fetchAndParseRSS_total by meson
  moreover obtain p where "fetchProductHuntPosts e = Inr p"
    using fetchProductHuntPosts_total by blast
  moreover obtain m where "fetchMarketData e = Inr m"
    using fetchMarketData_total by blast
  ultimately show ?thesis
    by (simp add: collectPrompt_def and_then_def)
qed

lemma collectPrompt_promptOf: "collectPrompt e = Inr (promptOf e)"
  using collectPrompt_total [of e] by (auto simp: promptOf_def)

lemma buildBrief_summarize: "buildBrief e = summarize e (promptOf e)"
  by (simp add: buildBrief_def collectPrompt_promptOf and_then_def split: sum.splits)

lemma snd_sendEmail: "snd (sendEmail e body sent) = sent @ [emailRequest e body]"
  by (simp add: sendEmail_def Let_def split: promise.splits sum.splits)

text \<open>
  Claim C7. When the call to the completion API rejects, the handler answers a POST with
  status 500 and \<^verbatim>\<open>sendEmail\<close> is not called: the list of requests to the Resend API is
  the one the invocation started with, and it is empty for an invocation that starts with
  the empty list.
\<close>

theorem handler_openai_throws:
  assumes "openai_create e (chatRequest (promptOf e)) = Rejects"
  shows "buildBrief e = Inl OpenAIError
       \<and> handler e ''POST'' sent = (\<lparr>code = 500, payload = Failure OpenAIError\<rparr>, sent)
       \<and> code (fst (handler e ''POST'' [])) = 500
       \<and> snd (handler e ''POST'' []) = []"
proof -
  have "buildBrief e = Inl OpenAIError"
    using assms by (simp add: buildBrief_summarize summarize_def)
  then show ?thesis
    by (simp add: handler_def)
qed

theorem handler_openai_throws_witness:
  "openai_create offline (chatRequest (promptOf offline)) = Rejects
   \<and> buildBrief offline = Inl OpenAIError
   \<and> handler offline ''POST'' [] = (\<lparr>code = 500, payload = Failure OpenAIError\<rparr>, [])
   \<and> code (fst (handler offline ''POST'' [])) = 500
   \<and> snd (handler offline ''POST'' []) = []"
proof -
  have h: "openai_create offline (chatRequest (promptOf offline)) = Rejects"
    by (simp add: offline_def)
  show ?thesis
    using h handler_openai_throws [OF h, of "[]"] by simp
qed

text \<open>
  Claim C8, as amended. When the completion API resolves with at least one choice and the
  content of the first choice is null or the empty string, \<^verbatim>\<open>buildBrief\<close> returns
  \<^verbatim>\<open>Failed to generate brief\<close> and the handler calls \<^verbatim>\<open>sendEmail\<close> with it: exactly one
  request is submitted to the Resend API, and its body is that string.
\<close>

theorem handler_empty_content:
  assumes "openai_create e (chatRequest (promptOf e)) = Resolves c"
    and "choices c = first # others"
    and "content (message first) = None \<or> content (message first) = Some []"
  shows "buildBrief e = Inr ''Failed to generate brief''
       \<and> snd (handler e ''POST'' sent) = sent @ [emailRequest e ''Failed to generate brief'']
       \<and> html (emailRequest e ''Failed to generate brief'') = ''Failed to generate brief''
       \<and> code (fst (handler e ''POST'' sent)) \<noteq> 405"
proof -
  have brief: "buildBrief e = Inr ''Failed to generate brief''"
    using assms by (auto simp: buildBrief_summarize summarize_def fallback_def)
  have "snd (handler e ''POST'' sent) = snd (sendEmail e ''Failed to generate brief'' sent)"
    by (simp add: handler_def brief split: prod.splits sum.splits)
  then have sent: "snd (handler e ''POST'' sent) = sent @ [emailRequest e ''Failed to generate brief'']"
    by (simp add: snd_sendEmail)
  have "code (fst (handler e ''POST'' sent)) \<noteq> 405"
    by (simp add: handler_def brief split: prod.splits sum.splits)
  with brief sent show ?thesis
    by (simp add: emailRequest_def)
qed

theorem handler_empty_content_witness:
  "openai_create silent_model (chatRequest (promptOf silent_model)) = Resolves silent_completion
   \<and> content (message (hd (choices silent_completion))) = None
   \<and> buildBrief silent_model = Inr ''Failed to generate brief''
   \<and> snd (handler silent_model ''POST'' []) =
       [emailRequest silent_model ''Failed to generate brief'']
   \<and> openai_create empty_model (chatRequest (promptOf empty_model)) = Resolves empty_completion
   \<and> content (message (hd (choices empty_completion))) = Some []
   \<and> buildBrief empty_model = Inr ''Failed to generate brief''
   \<and> snd (handler empty_model ''POST'' []) =
       [emailRequest empty_model ''Failed to generate brief'']"
proof -
  have h1: "openai_create silent_model (chatRequest (promptOf silent_model)) =
      Resolves silent_completion"
    by (simp add: silent_model_def offline_def)
  have h2: "choices silent_completion = \<lparr>message = \<lparr>content = None\<rparr>\<rparr> # []"
    by (simp add: silent_completion_def)
  have h3: "content (message \<lparr>message = \<lparr>content = None\<rparr>\<rparr>) = None
      \<or> content (message \<lparr>message = \<lparr>content = None\<rparr>\<rparr>) = Some []"
    by simp
  have k1: "openai_create empty_model (chatRequest (promptOf empty_model)) =
      Resolves empty_completion"
    by (simp add: empty_model_def silent_model_def offline_def)
  have k2: "choices empty_completion = \<lparr>message = \<lparr>content = Some []\<rparr>\<rparr> # []"
    by (simp add: empty_completion_def)
  have k3: "content (message \<lparr>message = \<lparr>content = Some []\<rparr>\<rparr>) = None
      \<or> content (message \<lparr>message = \<lparr>content = Some []\<rparr>\<rparr>) = Some []"
    by simp
  show ?thesis
    using h1 k1 handler_empty_content [OF h1 h2 h3, of "[]"]
      handler_empty_content [OF k1 k2 k3, of "[]"]
    by (simp add: silent_completion_def empty_completion_def)
qed

text \<open>
  Claim C8 as stated fails: a completion without a choice is a successful answer without
  message content, but \<^verbatim>\<open>completion.choices[0].message\<close> then throws a TypeError, the
  handler answers with status 500, and no request is submitted to the Resend API.
\<close>

theorem no_choice_counterexample:
  "openai_create no_choice (chatRequest (promptOf no_choice)) = Resolves \<lparr>choices = []\<rparr>
   \<and> buildBrief no_choice = Inl TypeError
   \<and> buildBrief no_choice \<noteq> Inr ''Failed to generate brief''
   \<and> handler no_choice ''POST'' [] = (\<lparr>code = 500, payload = Failure TypeError\<rparr>, [])"
proof -
  have answered: "openai_create no_choice (chatRequest (promptOf no_choice)) =
      Resolves \<lparr>choices = []\<rparr>"
    by (simp add: no_choice_def silent_model_def offline_def)
  then have brief: "buildBrief no_choice = Inl TypeError"
    by (simp add: buildBrief_summarize summarize_def)
  then have "handler no_choice ''POST'' [] = (\<lparr>code = 500, payload = Failure TypeError\<rparr>, [])"
    by (simp add: handler_def)
  with answered brief show ?thesis
    by simp
qed

section \<open>The sections of the prompt\<close>

lemma prompt_lines:
  assumes "newline \<notin> set a" "newline \<notin> set y" "newline \<notin> set w" "newline \<notin> set p"
    "newline \<notin> set m"
  shows "split_on newline (buildPrompt a y w p m) =
     prompt_head @
     [''AI:'', a, [], ''YC/TECH:'', y, [], ''WORLD NEWS:'', w, [], ''PRODUCT HUNT:'', p, [],
      ''HACKER NEWS:'', y @ ''  // Reuse for HN stories'', [], ''MARKETS:'', m, [], prompt_foot]"
  unfolding buildPrompt_def
  by (rule split_on_join) (use assms in \<open>simp_all add: prompt_head_def prompt_foot_def newline_def\<close>)

lemma promptOf_hacker_news_only:
  "promptOf hacker_news_only =
     buildPrompt [] (renderItem (sample_item 1)) [] ''Product Hunt data unavailable''
       ''Market data unavailable''"
proof -
  have ai: "fetchAndParseRSS hacker_news_only ''http://arxiv.org/rss/cs.AI'' = Inr []"
    by (simp add: fetchAndParseRSS_def fetchAndParseRSS_try_def hacker_news_only_def offline_def)
  have yc: "fetchAndParseRSS hacker_news_only ''https://news.ycombinator.com/rss'' =
      Inr [sample_item 1]"
    by (simp add: fetchAndParseRSS_def fetchAndParseRSS_try_def hacker_news_only_def offline_def
        respond_def one_item_doc_def)
  have world: "fetchAndParseRSS hacker_news_only
      ''https://rss.nytimes.com/services/xml/rss/nyt/World.xml'' = Inr []"
    by (simp add: fetchAndParseRSS_def fetchAndParseRSS_try_def hacker_news_only_def offline_def)
  have ph: "fetchProductHuntPosts hacker_news_only = Inr ''Product Hunt data unavailable''"
    by (simp add: fetchProductHuntPosts_def fetchProductHuntPosts_try_def fetch_json_def
        and_then_def hacker_news_only_def offline_def productHuntUrl_def)
  have "symbolQuote hacker_news_only ''SPY'' = Inl NetworkError"
    by (simp add: symbolQuote_def alphaVantageUrl_def hacker_news_only_def offline_def
        env_string_def)
  then have market: "fetchMarketData hacker_news_only = Inr ''Market data unavailable''"
    by (simp add: fetchMarketData_def fetchMarketData_try_def and_then_def unavailable_def)
  show ?thesis
    by (simp add: promptOf_def collectPrompt_def and_then_def ai yc world ph market
        feedSummary_def)
qed

text \<open>
  Claim C9 fails on the code. The second interpolation of \<^verbatim>\<open>ycSummary\<close> is followed,
  inside the template literal, by the text \<^verbatim>\<open>  // Reuse for HN stories\<close>: with one item
  in the Hacker News feed, the section under \<^verbatim>\<open>HACKER NEWS:\<close> is the line of the section
  under \<^verbatim>\<open>YC/TECH:\<close> with that text appended, and the two sections differ.
\<close>

theorem hacker_news_section_differs:
  "section_lines ''YC/TECH:'' (promptOf hacker_news_only) =
     [''Story I (http://example.org/I) - text'']
   \<and> section_lines ''HACKER NEWS:'' (promptOf hacker_news_only) =
     [''Story I (http://example.org/I) - text  // Reuse for HN stories'']
   \<and> section_lines ''HACKER NEWS:'' (promptOf hacker_news_only) \<noteq>
     section_lines ''YC/TECH:'' (promptOf hacker_news_only)"
proof -
  have item: "renderItem (sample_item 1) = ''Story I (http://example.org/I) - text''"
    by (simp add: renderItem_def sample_item_def first_or_def)
  have lines: "split_on newline (promptOf hacker_news_only) =
     prompt_head @
     [''AI:'', [], [], ''YC/TECH:'', ''Story I (http://example.org/I) - text'', [],
      ''WORLD NEWS:'', [], [], ''PRODUCT HUNT:'', ''Product Hunt data unavailable'', [],
      ''HACKER NEWS:'', ''Story I (http://example.org/I) - text'' @ ''  // Reuse for HN stories'',
      [], ''MARKETS:'', ''Market data unavailable'', [], prompt_foot]"
    unfolding promptOf_hacker_news_only item
    by (rule prompt_lines) (simp_all add: newline_def)
  have yc: "section_lines ''YC/TECH:'' (promptOf hacker_news_only) =
      [''Story I (http://example.org/I) - text'']"
    unfolding section_lines_def lines by (simp add: prompt_head_def)
  have hn: "section_lines ''HACKER NEWS:'' (promptOf hacker_news_only) =
      [''Story I (http://example.org/I) - text  // Reuse for HN stories'']"
    unfolding section_lines_def lines by (simp add: prompt_head_def)
  show ?thesis
    unfolding yc hn by simp
qed

section \<open>Rounding to doubles\<close>

lemma bitlen_powi:
  assumes "0 < x"
  shows "(2::rat) powi (bitlen x - 1) \<le> of_int x" and "(of_int x :: rat) < 2 powi bitlen x"
proof -
  have b: "1 \<le> bitlen x"
    using assms bitlen_eq_zero_iff [of x] bitlen_nonneg [of x] by linarith
  from bitlen_bounds [OF assms] have "(of_int (2 ^ nat (bitlen x - 1)) :: rat) \<le> of_int x"
    and "(of_int x :: rat) < of_int (2 ^ nat (bitlen x))"
    by (simp_all only: of_int_le_iff of_int_less_iff)
  then show "(2::rat) powi (bitlen x - 1) \<le> of_int x" and "(of_int x :: rat) < 2 powi bitlen x"
    using b by (simp_all add: power_int_def)
qed

lemma floor_log2_bounds:
  assumes "0 < a"
  shows "2 powi floor_log2 a \<le> a" and "a < 2 powi (floor_log2 a + 1)"
proof -
  obtain n d where q: "quotient_of a = (n, d)"
    by (cases "quotient_of a")
  then have d: "0 < d" and a: "a = of_int n / of_int d"
    by (auto simp: quotient_of_denom_pos quotient_of_div)
  with assms have n: "0 < n"
    by (simp add: zero_less_divide_iff)
  define k where "k = bitlen n - bitlen d"
  note n_lo = bitlen_powi(1) [OF n] and n_up = bitlen_powi(2) [OF n]
  note d_lo = bitlen_powi(1) [OF d] and d_up = bitlen_powi(2) [OF d]
  have "a < 2 powi bitlen n / 2 powi (bitlen d - 1)"
    unfolding a using n_up d_lo d n
    by (intro frac_less) simp_all
  also have "\<dots> = 2 powi (k + 1)"
    by (simp add: k_def power_int_diff [symmetric] algebra_simps)
  finally have up: "a < 2 powi (k + 1)" .
  have fl: "floor_log2 a = (if 2 powi k \<le> a then k else k - 1)"
    by (simp add: floor_log2_def q k_def Let_def)
  have "2 powi (bitlen n - 1) / 2 powi bitlen d < a"
    unfolding a using n_lo d_up d n
    by (intro frac_less2) simp_all
  then have lo: "2 powi (k - 1) < a"
    by (simp add: k_def power_int_diff [symmetric] algebra_simps)
  show "2 powi floor_log2 a \<le> a"
    using lo by (simp add: fl)
  show "a < 2 powi (floor_log2 a + 1)"
    using up by (auto simp: fl not_le)
qed

lemma floor_log2_unique:
  assumes "2 powi e \<le> a" and "a < 2 powi (e + 1)"
  shows "floor_log2 a = e"
proof -
  have pos: "0 < a"
    using assms(1) by (rule less_le_trans [rotated]) simp
  note b = floor_log2_bounds [OF pos]
  have "(2::rat) powi e < 2 powi (floor_log2 a + 1)"
    using assms(1) b(2) by simp
  then have "e < floor_log2 a + 1"
    by (metis linorder_not_less one_le_numeral power_int_increasing)
  moreover have "(2::rat) powi floor_log2 a < 2 powi (e + 1)"
    using assms(2) b(1) by simp
  then have "floor_log2 a < e + 1"
    by (metis linorder_not_less one_le_numeral power_int_increasing)
  ultimately show ?thesis
    by simp
qed

lemma round_half_even_near:
  assumes "\<bar>x - of_int m\<bar> < 1 / 2"
  shows "round_half_even x = m"
proof -
  have "\<lfloor>x\<rfloor> = m \<or> \<lfloor>x\<rfloor> = m - 1"
  proof (cases "of_int m \<le> x")
    case True
    moreover from assms have "x < of_int m + 1"
      by linarith
    ultimately have "\<lfloor>x\<rfloor> = m"
      by (intro floor_unique)
    then show ?thesis ..
  next
    case False
    then have "x < of_int (m - 1) + 1"
      by simp
    moreover have "(of_int (m - 1) :: rat) = of_int m - 1"
      by simp
    with assms have "of_int (m - 1) \<le> x"
      by linarith
    ultimately have "\<lfloor>x\<rfloor> = m - 1"
      by (intro floor_unique)
    then show ?thesis ..
  qed
  then show ?thesis
  proof
    assume f: "\<lfloor>x\<rfloor> = m"
    with assms have "x - of_int m < 1 / 2"
      by linarith
    with f show ?thesis
      by (simp add: round_half_even_def Let_def)
  next
    assume f: "\<lfloor>x\<rfloor> = m - 1"
    have "(of_int (m - 1) :: rat) = of_int m - 1"
      by simp
    with assms have "1 / 2 < x - of_int (m - 1)"
      by linarith
    with f show ?thesis
      by (simp add: round_half_even_def Let_def)
  qed
qed

lemma round_half_even_int: "round_half_even (of_int m) = m"
  by (rule round_half_even_near) simp

text \<open>Evaluation of the rounding at a value in the normal range that is not a tie.\<close>

lemma round_double_near:
  assumes "2 powi e \<le> a" and "a < 2 powi (e + 1)" and "- 1022 \<le> e" and "e \<le> 1022"
    and "\<bar>a / 2 powi (e - 52) - of_int m\<bar> < 1 / 2"
  shows "round_double neg a =
     Fin (if neg then - (of_int m * 2 powi (e - 52)) else of_int m * 2 powi (e - 52))"
proof -
  have pos: "0 < a"
    using assms(1) by (rule less_le_trans [rotated]) simp
  have e: "floor_log2 a = e"
    by (rule floor_log2_unique [OF assms(1,2)])
  have q: "max (e - 52) (- 1074) = e - 52"
    using assms(3) by simp
  have m: "round_half_even (a / 2 powi (e - 52)) = m"
    by (rule round_half_even_near [OF assms(5)])
  have scaled: "a / 2 powi (e - 52) < 2 ^ 53" "2 ^ 52 \<le> a / 2 powi (e - 52)"
  proof -
    have "a / 2 powi (e - 52) < 2 powi (e + 1) / 2 powi (e - 52)"
      using assms(2) by (simp add: divide_strict_right_mono)
    also have "\<dots> = 2 powi 53"
      by (simp add: power_int_diff [symmetric])
    finally show "a / 2 powi (e - 52) < 2 ^ 53"
      by simp
    have "2 powi e / 2 powi (e - 52) \<le> a / 2 powi (e - 52)"
      using assms(1) by (simp add: divide_right_mono)
    moreover have "(2::rat) powi e / 2 powi (e - 52) = 2 powi 52"
      by (simp add: power_int_diff [symmetric])
    ultimately show "2 ^ 52 \<le> a / 2 powi (e - 52)"
      by simp
  qed
  have m_pos: "0 < m"
  proof -
    have "(1::rat) \<le> 2 ^ 52" by simp
    with scaled(2) assms(5) have "0 < (of_int m :: rat)"
      by linarith
    then show ?thesis by simp
  qed
  have m_le: "(of_int m :: rat) \<le> 2 ^ 53"
  proof -
    from scaled(1) assms(5) have "(of_int m :: rat) < 2 ^ 53 + 1 / 2"
      by linarith
    then have "(of_int m :: rat) < of_int (2 ^ 53 + 1)"
      by simp
    then have "m < 2 ^ 53 + 1"
      by (simp only: of_int_less_iff)
    then have "m \<le> 2 ^ 53" by simp
    then show ?thesis
      by (metis of_int_le_iff of_int_numeral of_int_power)
  qed
  have "(of_int m :: rat) * 2 powi (e - 52) \<le> 2 ^ 53 * 2 powi (e - 52)"
    using m_le by (intro mult_right_mono) simp_all
  also have "\<dots> = 2 powi (e + 1)"
    using power_int_add [of "2::rat" 53 "e - 52"] by (simp add: add.commute)
  also have "\<dots> \<le> 2 powi 1023"
    using assms(4) by (intro power_int_increasing) simp_all
  also have "\<dots> < overflow"
    unfolding overflow_def by (intro power_int_strict_increasing) simp_all
  finally have small: "\<not> overflow \<le> of_int m * 2 powi (e - 52)"
    by (simp only: not_le)
  show ?thesis
    using pos m_pos small by (simp add: round_double_def e q m Let_def)
qed

text \<open>The integers of magnitude up to \<open>2^53\<close> are doubles.\<close>

lemma round_double_int:
  assumes "0 < m" and "m \<le> 2 ^ 53"
  shows "round_double neg (of_int m) = Fin (if neg then - of_int m else of_int m)"
proof -
  define a :: rat where "a = of_int m"
  have pos: "0 < a"
    using assms(1) by (simp add: a_def)
  define e where "e = floor_log2 a"
  note b = floor_log2_bounds [OF pos, folded e_def]
  have "(2::rat) powi e \<le> 2 powi 53"
  proof -
    have "a \<le> 2 ^ 53"
      unfolding a_def using assms(2) by (metis of_int_le_iff of_int_numeral of_int_power)
    with b(1) show ?thesis by simp
  qed
  then have e53: "e \<le> 53"
    by (metis linorder_not_less one_less_numeral_iff power_int_strict_increasing semiring_norm(76))
  have "(2::rat) powi 0 < 2 powi (e + 1)"
  proof -
    have "1 \<le> a"
      unfolding a_def using assms(1) by (simp add: int_one_le_iff_zero_less)
    with b(2) show ?thesis by simp
  qed
  then have e0: "0 \<le> e"
    by (metis add.commute linorder_not_less one_le_numeral power_int_increasing zle_add1_eq_le zless_add1_eq)
  define q where "q = max (e - 52) (- 1074)"
  have q_le: "q \<le> 1" and q_ge: "- 52 \<le> q"
    using e53 e0 by (simp_all add: q_def)
  have int_scaled: "a / 2 powi q = of_int (if q \<le> 0 then m * 2 ^ nat (- q) else m div 2)
      \<or> (q = 1 \<and> a = 2 ^ 53)"
  proof (cases "q \<le> 0")
    case True
    then have "a / 2 powi q = a * 2 ^ nat (- q)"
      by (simp add: power_int_def field_simps power_inverse [symmetric])
    with True show ?thesis
      by (simp add: a_def)
  next
    case False
    with q_le have "q = 1" by simp
    then have "e = 53"
      using e53 by (simp add: q_def max_def split: if_splits)
    with b(1) have "2 ^ 53 \<le> a" by simp
    moreover have "a \<le> 2 ^ 53"
      unfolding a_def using assms(2) by (metis of_int_le_iff of_int_numeral of_int_power)
    ultimately show ?thesis
      using \<open>q = 1\<close> by simp
  qed
  have exact: "of_int (round_half_even (a / 2 powi q)) * 2 powi q = a"
  proof (cases "q = 1 \<and> a = 2 ^ 53")
    case True
    then have "a / 2 powi q = of_int (2 ^ 52)"
      by simp
    then have "round_half_even (a / 2 powi q) = 2 ^ 52"
      by (simp only: round_half_even_int)
    with True show ?thesis by simp
  next
    case False
    with int_scaled obtain k where k: "a / 2 powi q = of_int k"
      by blast
    then have "round_half_even (a / 2 powi q) = k"
      by (simp only: round_half_even_int)
    with k show ?thesis
      by (simp add: field_simps)
  qed
  have nz: "round_half_even (a / 2 powi q) \<noteq> 0"
    using exact pos by auto
  have "a \<le> 2 ^ 53"
    unfolding a_def using assms(2) by (metis of_int_le_iff of_int_numeral of_int_power)
  also have "\<dots> = 2 powi 53"
    by simp
  also have "\<dots> < overflow"
    unfolding overflow_def by (intro power_int_strict_increasing) simp_all
  finally have small: "\<not> overflow \<le> a"
    by (simp only: not_le)
  show ?thesis
    using pos small nz exact
    by (simp add: round_double_def Let_def e_def [symmetric] q_def [symmetric] a_def [symmetric])
qed

lemma round_double_numeral:
  assumes "numeral k \<le> (2::int) ^ 53"
  shows "round_double neg (numeral k) = Fin (if neg then - numeral k else numeral k)"
  using round_double_int [of "numeral k" neg] assms by simp

section \<open>Code units and the order of the dates\<close>

lemma utf16_ascii: "ascii s \<Longrightarrow> utf16 s = map of_char s"
proof (induction s)
  case Nil
  then show ?case by (simp add: utf16.simps)
next
  case (Cons c cs)
  then have c: "(of_char c :: nat) < 0x80" and cs: "ascii cs"
    by (simp_all add: ascii_def)
  from c have x: "extra_len (c # cs) = 0"
    by (simp add: extra_len_def lead_extra_def)
  with c have "code_point (c # cs) = of_char c"
    by (simp add: code_point_def)
  with c have "units_of (code_point (c # cs)) = [of_char c]"
    by (simp add: units_of_def)
  with x Cons.IH [OF cs] show ?case
    by (subst utf16.simps) simp
qed

lemma ascii_append: "ascii (s @ t) \<longleftrightarrow> ascii s \<and> ascii t"
  by (simp add: ascii_def)

lemma map_of_char_less:
  fixes xs ys :: string
  shows "map of_char xs < (map of_char ys :: nat list) \<longleftrightarrow> xs < ys"
proof (induction xs arbitrary: ys)
  case Nil
  then show ?case by (cases ys) simp_all
next
  case (Cons x xs)
  then show ?case
    by (cases ys) (auto simp: less_char_def)
qed

lemma utf16_less_ascii:
  "ascii s \<Longrightarrow> ascii t \<Longrightarrow> utf16 s < utf16 t \<longleftrightarrow> s < t"
  by (simp add: utf16_ascii map_of_char_less)

lemma of_char_digit_char: "d < 10 \<Longrightarrow> of_char (digit_char d) = 48 + d"
proof -
  assume "d < 10"
  then consider "d = 0" | "d = 1" | "d = 2" | "d = 3" | "d = 4" | "d = 5" | "d = 6" | "d = 7"
    | "d = 8" | "d = 9"
    by atomize_elim presburger
  then show ?thesis
    by cases (simp_all add: digit_char_def)
qed

lemma digit_char_less: "a < 10 \<Longrightarrow> b < 10 \<Longrightarrow> digit_char a < digit_char b \<longleftrightarrow> a < b"
  by (simp add: less_char_def of_char_digit_char)

lemma digit_char_eq: "a < 10 \<Longrightarrow> b < 10 \<Longrightarrow> digit_char a = digit_char b \<longleftrightarrow> a = b"
  by (metis add_left_cancel of_char_digit_char)

lemma fixed_width_length: "length (fixed_width w n) = w"
  by (induction w arbitrary: n) simp_all

lemma less_append_same_length:
  fixes xs ys zs qs :: string
  assumes "length xs = length ys" and "length zs = length qs"
  shows "xs @ zs < ys @ qs \<longleftrightarrow> xs < ys \<or> (xs = ys \<and> zs < qs)"
proof (cases "xs = ys")
  case True
  then show ?thesis
    by (auto simp: list_less_def intro: lexord_append_leftI dest: lexord_append_leftD)
next
  case False
  have "xs @ zs < ys @ qs \<longleftrightarrow> xs < ys"
  proof
    assume "xs @ zs < ys @ qs"
    then show "xs < ys"
      unfolding list_less_def using False assms by (rule lexord_sufE)
  next
    assume "xs < ys"
    then show "xs @ zs < ys @ qs"
      unfolding list_less_def using assms(1) by (simp add: lexord_sufI)
  qed
  with False show ?thesis
    by simp
qed

lemma fixed_width_inject:
  "n < 10 ^ w \<Longrightarrow> m < 10 ^ w \<Longrightarrow> fixed_width w n = fixed_width w m \<longleftrightarrow> n = m"
proof (induction w arbitrary: n m)
  case 0
  then show ?case by simp
next
  case (Suc w)
  then have "n div 10 < 10 ^ w" and "m div 10 < 10 ^ w"
    by (simp_all add: less_mult_imp_div_less mult.commute)
  with Suc.IH have "fixed_width w (n div 10) = fixed_width w (m div 10) \<longleftrightarrow> n div 10 = m div 10"
    by blast
  moreover have "digit_char (n mod 10) = digit_char (m mod 10) \<longleftrightarrow> n mod 10 = m mod 10"
    by (simp add: digit_char_eq)
  moreover have "n = m \<longleftrightarrow> n div 10 = m div 10 \<and> n mod 10 = m mod 10"
    by (metis div_mult_mod_eq)
  ultimately show ?case
    by simp
qed

lemma fixed_width_less:
  "n < 10 ^ w \<Longrightarrow> m < 10 ^ w \<Longrightarrow> fixed_width w n < fixed_width w m \<longleftrightarrow> n < m"
proof (induction w arbitrary: n m)
  case 0
  then show ?case by simp
next
  case (Suc w)
  then have small: "n div 10 < 10 ^ w" "m div 10 < 10 ^ w"
    by (simp_all add: less_mult_imp_div_less mult.commute)
  have "fixed_width (Suc w) n < fixed_width (Suc w) m \<longleftrightarrow>
      fixed_width w (n div 10) < fixed_width w (m div 10)
      \<or> (fixed_width w (n div 10) = fixed_width w (m div 10)
          \<and> [digit_char (n mod 10)] < [digit_char (m mod 10)])"
    by (simp add: less_append_same_length fixed_width_length)
  also have "\<dots> \<longleftrightarrow> n div 10 < m div 10 \<or> (n div 10 = m div 10 \<and> n mod 10 < m mod 10)"
    using Suc.IH [OF small] fixed_width_inject [OF small] by (simp add: digit_char_less)
  also have "\<dots> \<longleftrightarrow> n < m"
  proof -
    have "n = 10 * (n div 10) + n mod 10" and "m = 10 * (m div 10) + m mod 10"
      by simp_all
    moreover have "n mod 10 < 10" and "m mod 10 < 10"
      by simp_all
    ultimately show ?thesis
      by linarith
  qed
  finally show ?case .
qed

lemma iso_date_less_bytes:
  assumes "y < 10000" "m < 100" "d < 100" "y' < 10000" "m' < 100" "d' < 100"
  shows "iso_date (y, m, d) < iso_date (y', m', d') \<longleftrightarrow> earlier (y, m, d) (y', m', d')"
proof -
  have y: "fixed_width 4 y < fixed_width 4 y' \<longleftrightarrow> y < y'"
    "fixed_width 4 y = fixed_width 4 y' \<longleftrightarrow> y = y'"
    using assms by (simp_all add: fixed_width_less fixed_width_inject)
  have m: "fixed_width 2 m < fixed_width 2 m' \<longleftrightarrow> m < m'"
    "fixed_width 2 m = fixed_width 2 m' \<longleftrightarrow> m = m'"
    using assms by (simp_all add: fixed_width_less fixed_width_inject)
  have d: "fixed_width 2 d < fixed_width 2 d' \<longleftrightarrow> d < d'"
    using assms by (simp add: fixed_width_less)
  have dash: "''-'' @ s < ''-'' @ t \<longleftrightarrow> s < t" for s t :: string
    by simp
  have "iso_date (y, m, d) < iso_date (y', m', d') \<longleftrightarrow>
      fixed_width 4 y < fixed_width 4 y'
      \<or> (fixed_width 4 y = fixed_width 4 y'
          \<and> (fixed_width 2 m < fixed_width 2 m'
              \<or> (fixed_width 2 m = fixed_width 2 m' \<and> fixed_width 2 d < fixed_width 2 d')))"
    unfolding iso_date_def prod.case
    by (subst less_append_same_length)
      (simp_all only: fixed_width_length length_append dash less_append_same_length)
  then show ?thesis
    unfolding y m d earlier_def by simp
qed


lemma digit_char_ascii: "d < 10 \<Longrightarrow> (of_char (digit_char d) :: nat) < 0x80"
  by (simp add: of_char_digit_char)

lemma fixed_width_ascii: "ascii (fixed_width w n)"
  by (induction w arbitrary: n) (simp_all add: ascii_def digit_char_ascii)

lemma iso_date_ascii: "ascii (iso_date ymd)"
proof (cases ymd)
  case (fields y m d)
  have "ascii ''-''"
    by (simp add: ascii_def)
  then show ?thesis
    unfolding fields iso_date_def prod.case ascii_append
    by (intro conjI fixed_width_ascii)
qed

text \<open>
  For dates written \<^verbatim>\<open>YYYY-MM-DD\<close> the order of the code units is the order of the
  calendar.
\<close>

lemma iso_date_less:
  assumes "y < 10000" "m < 100" "d < 100" "y' < 10000" "m' < 100" "d' < 100"
  shows "utf16 (iso_date (y, m, d)) < utf16 (iso_date (y', m', d'))
     \<longleftrightarrow> earlier (y, m, d) (y', m', d')"
  using iso_date_less_bytes [OF assms] by (simp add: utf16_less_ascii iso_date_ascii)

section \<open>The quote of a time series\<close>

lemma slice_last2_snoc: "slice_last2 (ks @ [a, b]) = [a, b]"
  by (simp add: slice_last2_def)

lemma two_last_elements:
  assumes "2 \<le> length xs"
  shows "xs = butlast (butlast xs) @ [last (butlast xs), last xs]"
proof -
  from assms have "xs \<noteq> []" by auto
  then have a: "xs = butlast xs @ [last xs]" by simp
  from assms have "butlast xs \<noteq> []" by (cases xs rule: rev_cases) auto
  then have "butlast xs = butlast (butlast xs) @ [last (butlast xs)]" by simp
  with a show ?thesis by (metis append.assoc append_Cons append_Nil)
qed

lemma dates_of_split:
  assumes "2 \<le> length (object_keys ts)"
  shows "dates_of ts = butlast (butlast (dates_of ts)) @ [previous_date ts, latest_date ts]"
  unfolding previous_date_def latest_date_def
  by (rule two_last_elements) (use assms in \<open>simp add: dates_of_def\<close>)

lemma dates_of_sorted: "sorted (map utf16 (dates_of ts))"
  and dates_of_distinct: "distinct (dates_of ts)"
  and dates_of_set: "set (dates_of ts) = set (object_keys ts)"
  by (simp_all add: dates_of_def object_keys_def)

lemma sorted_distinct_snoc2:
  assumes "sorted (map f (ks @ [a, b]))" "distinct (ks @ [a, b])"
  shows "a \<noteq> b \<and> f a \<le> f b \<and> (\<forall>d \<in> set (ks @ [a, b]). f d \<le> f b)
    \<and> (\<forall>d \<in> set (ks @ [a, b]). d \<noteq> b \<longrightarrow> f d \<le> f a)"
  using assms by (auto simp: sorted_append)

lemma two_most_recent:
  assumes "2 \<le> length (object_keys ts)"
  shows "slice_last2 (sort_key utf16 (object_keys ts)) = [previous_date ts, latest_date ts]"
    and "previous_date ts \<in> set (object_keys ts)" and "latest_date ts \<in> set (object_keys ts)"
    and "previous_date ts \<noteq> latest_date ts"
    and "utf16 (previous_date ts) \<le> utf16 (latest_date ts)"
    and "\<forall>d \<in> set (object_keys ts). utf16 d \<le> utf16 (latest_date ts)"
    and "\<forall>d \<in> set (object_keys ts). d \<noteq> latest_date ts \<longrightarrow> utf16 d \<le> utf16 (previous_date ts)"
proof -
  let ?ks = "butlast (butlast (dates_of ts))"
  have split: "dates_of ts = ?ks @ [previous_date ts, latest_date ts]"
    by (rule dates_of_split [OF assms])
  show "slice_last2 (sort_key utf16 (object_keys ts)) = [previous_date ts, latest_date ts]"
    using split slice_last2_snoc [of ?ks "previous_date ts" "latest_date ts"]
    by (simp add: dates_of_def)
  have mem: "set (object_keys ts) = set (?ks @ [previous_date ts, latest_date ts])"
    using split dates_of_set by metis
  show "previous_date ts \<in> set (object_keys ts)" and "latest_date ts \<in> set (object_keys ts)"
    unfolding mem by simp_all
  have "sorted (map utf16 (?ks @ [previous_date ts, latest_date ts]))"
    and "distinct (?ks @ [previous_date ts, latest_date ts])"
    using split dates_of_sorted [of ts] dates_of_distinct [of ts] by metis+
  from sorted_distinct_snoc2 [OF this]
  show "previous_date ts \<noteq> latest_date ts"
    and "utf16 (previous_date ts) \<le> utf16 (latest_date ts)"
    and "\<forall>d \<in> set (object_keys ts). utf16 d \<le> utf16 (latest_date ts)"
    and "\<forall>d \<in> set (object_keys ts). d \<noteq> latest_date ts \<longrightarrow> utf16 d \<le> utf16 (previous_date ts)"
    unfolding mem by blast+
qed

lemma get_own: "ts \<noteq> JNull \<Longrightarrow> get ts d = Inr (map_of (own_entries ts) d)"
  by (cases ts) (simp_all add: get_def)

lemma object_keys_JNull: "object_keys JNull = []"
  by (simp add: object_keys_def own_entries_def)

lemma all_of_Inr: "all_of (map (\<lambda>x. Inr (f x)) xs) = Inr (map f xs)"
  by (induction xs) simp_all

lemma all_of_values:
  assumes "\<forall>x \<in> set xs. \<exists>y. g x = Inr y"
  shows "\<exists>ys. all_of (map g xs) = Inr ys"
  using assms by (induction xs) auto

lemma all_of_error:
  assumes "\<forall>x \<in> set xs. (\<exists>y. g x = Inr y) \<or> g x = Inl err" and "\<exists>x \<in> set xs. g x = Inl err"
  shows "all_of (map g xs) = Inl err"
  using assms
proof (induction xs)
  case Nil
  then show ?case by simp
next
  case (Cons x xs)
  show ?case
  proof (cases "g x")
    case (Inl a)
    with Cons.prems(1) show ?thesis by auto
  next
    case (Inr y)
    with Cons.prems have "\<exists>x \<in> set xs. g x = Inl err" by auto
    with Cons.IH Cons.prems(1) have "all_of (map g xs) = Inl err" by auto
    with Inr show ?thesis by simp
  qed
qed

text \<open>ToString throws exactly on the values that are not printable, and then a TypeError.\<close>

lemma js_toString_printable:
  "(printable v \<longrightarrow> (\<exists>s. js_toString n2s v = Inr s))
   \<and> (\<not> printable v \<longrightarrow> js_toString n2s v = Inl TypeError)"
proof (induction v)
  case (JArr xs)
  let ?g = "\<lambda>x. if x = JNull then Inr [] else js_toString n2s x"
  have each: "\<forall>x \<in> set xs. (printable x \<longrightarrow> (\<exists>s. ?g x = Inr s))
      \<and> (\<not> printable x \<longrightarrow> ?g x = Inl TypeError)"
    using JArr.IH by auto
  show ?case
  proof (cases "list_all printable xs")
    case True
    with each have "\<forall>x \<in> set xs. \<exists>y. ?g x = Inr y"
      by (simp add: list_all_iff)
    from all_of_values [OF this] True show ?thesis
      by (auto simp: and_then_def)
  next
    case False
    then obtain x where "x \<in> set xs" and "\<not> printable x"
      unfolding list_all_iff by blast
    with each have "\<exists>x \<in> set xs. ?g x = Inl TypeError"
      by blast
    moreover have "\<forall>x \<in> set xs. (\<exists>y. ?g x = Inr y) \<or> ?g x = Inl TypeError"
      using each by blast
    ultimately have "all_of (map ?g xs) = Inl TypeError"
      using all_of_error [of xs ?g TypeError] by blast
    with False show ?thesis
      by (simp add: and_then_def)
  qed
qed simp_all

lemma js_toString_text: "printable v \<Longrightarrow> js_toString n2s v = Inr (text_of n2s v)"
  using js_toString_printable [of v n2s] by (auto simp: text_of_def)

lemma js_toString_throws: "\<not> printable v \<Longrightarrow> js_toString n2s v = Inl TypeError"
  using js_toString_printable [of v n2s] by simp

lemma toString_opt_cases:
  "toString_opt n2s raw =
     (case raw of
        None \<Rightarrow> Inr ''undefined''
      | Some w \<Rightarrow> if printable w then Inr (text_of n2s w) else Inl TypeError)"
  by (simp add: toString_opt_def js_toString_text js_toString_throws split: option.splits)

lemma parseFloat_cases:
  "parseFloat n2s raw =
     (case raw of
        None \<Rightarrow> Inr NaN
      | Some w \<Rightarrow> if printable w then Inr (number_of w) else Inl TypeError)"
  by (simp add: parseFloat_def js_toString_text js_toString_throws and_then_def
      split: option.splits)

lemma close_on_entry:
  assumes "map_of (own_entries ts) d = Some entry"
  shows "close_on ts d =
     (if entry = JNull then None
      else case map_of (own_entries entry) closeKey of
             None \<Rightarrow> Some NaN
           | Some raw \<Rightarrow> if printable raw then Some (number_of raw) else None)"
  using assms by (cases entry) (simp_all add: close_on_def)

lemma key_has_entry:
  assumes "d \<in> set (object_keys ts)"
  shows "\<exists>entry. map_of (own_entries ts) d = Some entry"
proof -
  from assms have "d \<in> fst ` set (own_entries ts)"
    by (simp add: object_keys_def)
  then show ?thesis
    by (cases "map_of (own_entries ts) d") (auto simp: map_of_eq_None_iff)
qed

text \<open>
  The quote of a series with at least two dates: a TypeError when one of the two most
  recent dates has no close, and otherwise the quote of the two closes.
\<close>

lemma quoteOfSeries_closes:
  assumes keys: "2 \<le> length (object_keys ts)"
  shows "quoteOfSeries n2s symbol ts =
     (case close_on ts (latest_date ts) of
        None \<Rightarrow> Inl TypeError
      | Some L \<Rightarrow>
          (case close_on ts (previous_date ts) of
             None \<Rightarrow> Inl TypeError
           | Some P \<Rightarrow>
               Inr \<lparr>price = L,
                    changePercent = toFixed n2s 2 (js_mul (js_div (js_sub L P) P) (Fin 100))\<rparr>))"
proof -
  have dates: "slice_last2 (sort_key utf16 (object_keys ts)) = [previous_date ts, latest_date ts]"
    by (rule two_most_recent(1) [OF keys])
  have "ts \<noteq> JNull"
    using keys by (auto simp: object_keys_JNull)
  note own = get_own [OF this]
  obtain e1 where 1: "map_of (own_entries ts) (latest_date ts) = Some e1"
    using key_has_entry [OF two_most_recent(3) [OF keys]] by blast
  obtain e0 where 0: "map_of (own_entries ts) (previous_date ts) = Some e0"
    using key_has_entry [OF two_most_recent(2) [OF keys]] by blast
  note c1 = close_on_entry [OF 1] and c0 = close_on_entry [OF 0]
  show ?thesis
  proof (cases "e1 = JNull")
    case True
    have "get_opt (Some JNull) closeKey = Inl TypeError"
      by (simp add: get_opt_def get_def)
    with True show ?thesis
      unfolding quoteOfSeries_def dates c1
      by (simp add: own 1 and_then_def Let_def)
  next
    case n1: False
    then have g1: "get_opt (Some e1) closeKey = Inr (map_of (own_entries e1) closeKey)"
      by (simp add: get_opt_def get_own)
    show ?thesis
    proof (cases "e0 = JNull")
      case True
      have "get_opt (Some JNull) closeKey = Inl TypeError"
        by (simp add: get_opt_def get_def)
      with True show ?thesis
        unfolding quoteOfSeries_def dates c1 c0
        by (simp add: own 1 0 g1 and_then_def Let_def split: option.splits)
    next
      case n0: False
      then have g0: "get_opt (Some e0) closeKey = Inr (map_of (own_entries e0) closeKey)"
        by (simp add: get_opt_def get_own)
      show ?thesis
        unfolding quoteOfSeries_def dates c1 c0
        using n1 n0
        by (simp add: own 1 0 g1 g0 and_then_def Let_def toString_opt_cases parseFloat_cases
            split: option.splits)
    qed
  qed
qed

lemma show_nat_length: "length (show_nat n) \<ge> 1"
  by (subst show_nat.simps) simp

lemma toFixed_digits_two:
  "toFixed_digits 2 n =
     show_nat (n div 100) @ ''.'' @ [digit_char (n div 10 mod 10), digit_char (n mod 10)]"
proof -
  consider "n < 10" | "10 \<le> n" "n < 100" | "100 \<le> n" by linarith
  then show ?thesis
  proof cases
    case 1
    then have "show_nat n = [digit_char n]" and "show_nat (n div 100) = [digit_char 0]"
      by (simp_all add: show_nat.simps [of n] show_nat.simps [of 0])
    with 1 show ?thesis
      by (simp add: toFixed_digits_def digit_char_def numeral_2_eq_2)
  next
    case 2
    then have "show_nat n = [digit_char (n div 10), digit_char (n mod 10)]"
      and "show_nat (n div 100) = [digit_char 0]"
      by (simp_all add: show_nat.simps [of n] show_nat.simps [of "n div 10"]
          show_nat.simps [of 0])
    with 2 show ?thesis
      by (simp add: toFixed_digits_def digit_char_def numeral_2_eq_2 numeral_3_eq_3)
  next
    case 3
    then have "10 \<le> n div 10" by simp
    moreover have "n div 10 div 10 = n div 100"
      by (simp add: div_mult2_eq [symmetric])
    ultimately have m: "show_nat n =
        show_nat (n div 100) @ [digit_char (n div 10 mod 10), digit_char (n mod 10)]"
      using 3 by (simp add: show_nat.simps [of n] show_nat.simps [of "n div 10"])
    have "length (show_nat (n div 100)) \<ge> 1"
      by (rule show_nat_length)
    then have "show_nat (n div 100) \<noteq> []"
      by auto
    then show ?thesis
      unfolding toFixed_digits_def Let_def m by simp
  qed
qed

lemma round_half_up_near:
  assumes "0 \<le> x"
  shows "\<bar>of_nat (round_half_up x) - x\<bar> \<le> 1 / 2"
proof -
  have "0 \<le> \<lfloor>x + 1 / 2\<rfloor>"
    using assms by simp
  then have "(of_nat (round_half_up x) :: rat) = of_int \<lfloor>x + 1 / 2\<rfloor>"
    by (simp add: round_half_up_def)
  moreover have "of_int \<lfloor>x + 1 / 2\<rfloor> \<le> x + 1 / 2" and "x + 1 / 2 < of_int \<lfloor>x + 1 / 2\<rfloor> + 1"
    by linarith+
  ultimately show ?thesis
    by linarith
qed

lemma two_decimals_zero: "two_decimals 0 = toFixed_digits 2 0"
  by (simp add: two_decimals_def toFixed_digits_two round_half_up_def)

lemma toFixed_two_decimals:
  assumes "\<bar>c\<bar> < 10 ^ 21"
  shows "toFixed n2s 2 (Fin c) = two_decimals c"
proof -
  from assms have "\<not> 10 ^ 21 \<le> \<bar>c\<bar>"
    by (simp only: not_le)
  then have "toFixed n2s 2 (Fin c) =
      (if c < 0 then ''-'' else []) @ toFixed_digits 2 (round_half_up (\<bar>c\<bar> * 10\<^sup>2))"
    unfolding toFixed_def by (simp only: jsnum.case if_False)
  then show ?thesis
    by (simp add: two_decimals_def toFixed_digits_two Let_def)
qed

lemma two_decimals_near:
  "\<bar>of_nat (round_half_up (\<bar>c\<bar> * 100)) / 100 - \<bar>c\<bar>\<bar> \<le> 1 / 200"
proof -
  have "\<bar>of_nat (round_half_up (\<bar>c\<bar> * 100)) - \<bar>c\<bar> * 100\<bar> \<le> 1 / 2"
    by (rule round_half_up_near) simp
  then show ?thesis
    by (simp add: abs_le_iff field_simps)
qed

lemma round_half_up_eq:
  assumes "of_nat n \<le> x + 1 / 2" and "x + 1 / 2 < of_nat n + 1"
  shows "round_half_up x = n"
proof -
  have "\<lfloor>x + 1 / 2\<rfloor> = int n"
    by (rule floor_unique) (use assms in simp_all)
  then show ?thesis
    by (simp add: round_half_up_def)
qed

lemma round_half_up_of_nat: "round_half_up (of_nat n) = n"
  by (rule round_half_up_eq) simp_all

lemma round_half_up_numeral: "round_half_up (numeral k) = numeral k"
  using round_half_up_of_nat [of "numeral k"] by simp

lemmas print_simps =
  two_decimals_def round_half_up_numeral show_nat.simps digit_char_def

lemmas parse_simps =
  parseFloat_str_def read_literal_def skip_ws.simps code_point_def extra_len_def
  lead_extra_def is_ws_def read_sign_def is_digit_def digits_val_def digit_val_def
  read_exponent_def

lemmas arith_simps =
  js_sub_def js_div_def js_mul_def is_nan_def is_inf_def is_zero_def is_neg_def value_of_def
  mk_fin_def

lemma parse_100: "parseFloat_str ''100.0000'' = Fin 100"
  by (simp add: parse_simps round_double_numeral)

lemma parse_110: "parseFloat_str ''110.0000'' = Fin 110"
  by (simp add: parse_simps round_double_numeral)

lemma parse_400: "parseFloat_str ''400.0000'' = Fin 400"
  by (simp add: parse_simps round_double_numeral)

lemma parse_398: "parseFloat_str ''398.0000'' = Fin 398"
  by (simp add: parse_simps round_double_numeral)

lemma parse_zero: "parseFloat_str ''0.0000'' = Fin 0"
  by (simp add: parse_simps round_double_def mk_zero_def)

lemma rise_of_ten: "js_mul (js_div (js_sub (Fin 110) (Fin 100)) (Fin 100)) (Fin 100) = Fin 10"
proof -
  have "js_sub (Fin 110) (Fin 100) = Fin 10"
    by (simp add: arith_simps round_double_numeral)
  moreover have "js_div (Fin 10) (Fin 100) = Fin (3602879701896397 / 36028797018963968)"
    using round_double_near [of "- 4" "1 / 10" 7205759403792794 False]
    by (simp add: arith_simps power_int_minus)
  moreover have "js_mul (Fin (3602879701896397 / 36028797018963968)) (Fin 100) = Fin 10"
    using round_double_near [of 3 "360287970189639700 / 36028797018963968" 5629499534213120 False]
    by (simp add: arith_simps power_int_minus)
  ultimately show ?thesis
    by simp
qed

lemma fall_of_two: "js_mul (js_div (js_sub (Fin 398) (Fin 400)) (Fin 400)) (Fin 100) = Fin (- (1 / 2))"
proof -
  have "js_sub (Fin 398) (Fin 400) = Fin (- 2)"
    by (simp add: arith_simps round_double_numeral)
  moreover have "js_div (Fin (- 2)) (Fin 400) = Fin (- (5764607523034235 / 1152921504606846976))"
    using round_double_near [of "- 8" "1 / 200" 5764607523034235 True]
    by (simp add: arith_simps power_int_minus)
  moreover have "js_mul (Fin (- (5764607523034235 / 1152921504606846976))) (Fin 100) = Fin (- (1 / 2))"
    using round_double_near [of "- 1" "576460752303423500 / 1152921504606846976" 4503599627370496 True]
    by (simp add: arith_simps power_int_minus)
  ultimately show ?thesis
    by simp
qed

lemma literal_101: "read_literal ''101.2550'' = DecimalLiteral False (20251 / 200)"
  by (simp add: parse_simps)

lemma parse_101: "parseFloat_str ''101.2550'' = Fin (890648398963671 / 8796093022208)"
  unfolding parseFloat_str_def literal_101
  using round_double_near [of 6 "20251 / 200" 7125187191709368 False]
  by (simp add: power_int_minus)

lemma rise_of_101:
  "js_mul (js_div (js_sub (Fin (890648398963671 / 8796093022208)) (Fin 100)) (Fin 100)) (Fin 100) =
     Fin (11039096742871 / 8796093022208)"
proof -
  have "js_sub (Fin (890648398963671 / 8796093022208)) (Fin 100) = Fin (11039096742871 / 8796093022208)"
    using round_double_near [of 0 "11039096742871 / 8796093022208" 5652017532349952 False]
    by (simp add: arith_simps power_int_minus)
  moreover have "js_div (Fin (11039096742871 / 8796093022208)) (Fin 100) = Fin (7234582441407939 / 576460752303423488)"
    using round_double_near [of "- 7" "11039096742871 / 879609302220800" 7234582441407939 False]
    by (simp add: arith_simps power_int_minus)
  moreover have "js_mul (Fin (7234582441407939 / 576460752303423488)) (Fin 100) = Fin (11039096742871 / 8796093022208)"
    using round_double_near [of 0 "723458244140793900 / 576460752303423488" 5652017532349952 False]
    by (simp add: arith_simps power_int_minus)
  ultimately show ?thesis
    by simp
qed


lemma series_keys:
  "object_keys (series previous latest) = [''2024-01-03'', ''2024-01-02'', ''2023-12-29'']"
  by (simp add: series_def object_keys_def own_entries_def)

lemma utf16_dates:
  "utf16 ''2024-01-03'' = map of_char ''2024-01-03''"
  "utf16 ''2024-01-02'' = map of_char ''2024-01-02''"
  "utf16 ''2023-12-29'' = map of_char ''2023-12-29''"
  by (simp_all add: utf16_ascii ascii_def)

lemma series_dates:
  "dates_of (series previous latest) = [''2023-12-29'', ''2024-01-02'', ''2024-01-03'']"
  by (simp add: dates_of_def series_keys utf16_dates)

lemma series_recent:
  "latest_date (series previous latest) = ''2024-01-03''"
  "previous_date (series previous latest) = ''2024-01-02''"
  by (simp_all add: latest_date_def previous_date_def series_dates)

lemma series_closes:
  "close_on (series previous latest) ''2024-01-03'' = Some (parseFloat_str latest)"
  "close_on (series previous latest) ''2024-01-02'' = Some (parseFloat_str previous)"
  by (simp_all add: close_on_def series_def own_entries_def daily_def closeKey_def)

lemma bare_series_keys:
  "object_keys bare_series = [''2024-01-03'', ''2024-01-02'', ''2023-12-29'']"
  by (simp add: bare_series_def object_keys_def own_entries_def)

lemma bare_series_recent:
  "latest_date bare_series = ''2024-01-03''"
  "previous_date bare_series = ''2024-01-02''"
  by (simp_all add: latest_date_def previous_date_def dates_of_def bare_series_keys utf16_dates)

lemma bare_series_closes:
  "close_on bare_series ''2024-01-03'' = Some NaN"
  "close_on bare_series ''2024-01-02'' = Some NaN"
  by (simp_all add: close_on_def bare_series_def own_entries_def)

lemma two_decimals_10: "two_decimals 10 = ''10.00''"
  by (simp add: print_simps)

lemma fixed_width_2: "fixed_width 2 n = [digit_char (n div 10 mod 10), digit_char (n mod 10)]"
proof -
  have "fixed_width (Suc (Suc 0)) n = [digit_char (n div 10 mod 10), digit_char (n mod 10)]"
    by simp
  then show ?thesis
    by (simp only: numeral_2_eq_2)
qed

lemma fixed_width_4:
  "fixed_width 4 n =
     [digit_char (n div 1000 mod 10), digit_char (n div 100 mod 10),
      digit_char (n div 10 mod 10), digit_char (n mod 10)]"
proof -
  have "fixed_width (Suc (Suc (Suc (Suc 0)))) n =
      [digit_char (n div 1000 mod 10), digit_char (n div 100 mod 10),
       digit_char (n div 10 mod 10), digit_char (n mod 10)]"
    by (simp add: div_mult2_eq [symmetric])
  moreover have "(4::nat) = Suc (Suc (Suc (Suc 0)))"
    by simp
  ultimately show ?thesis
    by (simp only:)
qed

lemma iso_date_samples:
  "iso_date (2024, 1, 2) = ''2024-01-02''" "iso_date (2024, 1, 3) = ''2024-01-03''"
  by (simp_all add: iso_date_def fixed_width_2 fixed_width_4 digit_char_def)

text \<open>
  Claim C3, as amended. For a time series with at least two dates, the dates the code
  selects are the last two in ascending order of their code units, that is the greatest
  key and the greatest of the others; for keys written \<^verbatim>\<open>YYYY-MM-DD\<close> this order is the
  order of the calendar, so these are the two most recent dates. When one of the two dates
  has no close (its entry is null, or its field \<^verbatim>\<open>4. close\<close> cannot be converted to a
  string) the code throws a TypeError. Otherwise, with the closes \<open>L\<close> and \<open>P\<close> that
  \<^verbatim>\<open>parseFloat\<close> reads on the latest and the previous date, the quote has the price \<open>L\<close>, and
  its \<^verbatim>\<open>changePercent\<close> is the double \<open>((L - P) / P) * 100\<close>, every operation rounded to
  the nearest double, as \<^verbatim>\<open>toFixed(2)\<close> prints it: for a finite double of magnitude below
  \<open>10^21\<close> the nearest decimal with two places after the point, ties away from zero.
\<close>

theorem quote_of_two_most_recent:
  assumes "2 \<le> length (object_keys ts)"
  shows "slice_last2 (sort_key utf16 (object_keys ts)) = [previous_date ts, latest_date ts]
       \<and> previous_date ts \<in> set (object_keys ts) \<and> latest_date ts \<in> set (object_keys ts)
       \<and> previous_date ts \<noteq> latest_date ts
       \<and> utf16 (previous_date ts) \<le> utf16 (latest_date ts)
       \<and> (\<forall>k \<in> set (object_keys ts). utf16 k \<le> utf16 (latest_date ts))
       \<and> (\<forall>k \<in> set (object_keys ts). k \<noteq> latest_date ts \<longrightarrow>
             utf16 k \<le> utf16 (previous_date ts))
       \<and> (y < 10000 \<and> m < 100 \<and> d < 100 \<and> y' < 10000 \<and> m' < 100 \<and> d' < 100 \<longrightarrow>
            (utf16 (iso_date (y, m, d)) < utf16 (iso_date (y', m', d'))
               \<longleftrightarrow> earlier (y, m, d) (y', m', d')))
       \<and> quoteOfSeries n2s symbol ts =
           (case close_on ts (latest_date ts) of
              None \<Rightarrow> Inl TypeError
            | Some L \<Rightarrow>
                (case close_on ts (previous_date ts) of
                   None \<Rightarrow> Inl TypeError
                 | Some P \<Rightarrow>
                     Inr \<lparr>price = L,
                          changePercent =
                            toFixed n2s 2 (js_mul (js_div (js_sub L P) P) (Fin 100))\<rparr>))
       \<and> (\<bar>c\<bar> < 10 ^ 21 \<longrightarrow>
            toFixed n2s 2 (Fin c) = two_decimals c
            \<and> \<bar>of_nat (round_half_up (\<bar>c\<bar> * 100)) / 100 - \<bar>c\<bar>\<bar> \<le> 1 / 200)"
proof -
  note recent = two_most_recent [OF assms]
  have order: "y < 10000 \<and> m < 100 \<and> d < 100 \<and> y' < 10000 \<and> m' < 100 \<and> d' < 100 \<longrightarrow>
      (utf16 (iso_date (y, m, d)) < utf16 (iso_date (y', m', d'))
         \<longleftrightarrow> earlier (y, m, d) (y', m', d'))"
    using iso_date_less [of y m d y' m' d'] by blast
  have q: "quoteOfSeries n2s symbol ts =
      (case close_on ts (latest_date ts) of
         None \<Rightarrow> Inl TypeError
       | Some L \<Rightarrow>
           (case close_on ts (previous_date ts) of
              None \<Rightarrow> Inl TypeError
            | Some P \<Rightarrow>
                Inr \<lparr>price = L,
                     changePercent =
                       toFixed n2s 2 (js_mul (js_div (js_sub L P) P) (Fin 100))\<rparr>))"
    by (rule quoteOfSeries_closes [OF assms])
  have print: "\<bar>c\<bar> < 10 ^ 21 \<longrightarrow>
      toFixed n2s 2 (Fin c) = two_decimals c
      \<and> \<bar>of_nat (round_half_up (\<bar>c\<bar> * 100)) / 100 - \<bar>c\<bar>\<bar> \<le> 1 / 200"
    using toFixed_two_decimals [of c n2s] two_decimals_near [of c] by blast
  show ?thesis
    by (intro conjI; (rule recent order q print))
qed

theorem quote_of_two_most_recent_witness:
  "2 \<le> length (object_keys (series ''100.0000'' ''110.0000''))
   \<and> slice_last2 (sort_key utf16 (object_keys (series ''100.0000'' ''110.0000''))) =
        [''2024-01-02'', ''2024-01-03'']
   \<and> utf16 (iso_date (2024, 1, 2)) < utf16 (iso_date (2024, 1, 3))
   \<and> iso_date (2024, 1, 2) = ''2024-01-02'' \<and> iso_date (2024, 1, 3) = ''2024-01-03''
   \<and> close_on (series ''100.0000'' ''110.0000'') ''2024-01-03'' = Some (Fin 110)
   \<and> close_on (series ''100.0000'' ''110.0000'') ''2024-01-02'' = Some (Fin 100)
   \<and> js_mul (js_div (js_sub (Fin 110) (Fin 100)) (Fin 100)) (Fin 100) = Fin 10
   \<and> toFixed (\<lambda>r. []) 2 (Fin 10) = ''10.00''
   \<and> quoteOfSeries (\<lambda>r. []) ''SPY'' (series ''100.0000'' ''110.0000'') =
        Inr \<lparr>price = Fin 110, changePercent = ''10.00''\<rparr>"
proof -
  let ?ts = "series ''100.0000'' ''110.0000''"
  have h1: "2 \<le> length (object_keys ?ts)"
    by (simp add: series_keys)
  have h2: "close_on ?ts ''2024-01-03'' = Some (Fin 110)"
    by (simp add: series_closes parse_110)
  have h3: "close_on ?ts ''2024-01-02'' = Some (Fin 100)"
    by (simp add: series_closes parse_100)
  have h4: "(2024::nat) < 10000 \<and> (1::nat) < 100 \<and> (2::nat) < 100 \<and> (2024::nat) < 10000
      \<and> (1::nat) < 100 \<and> (3::nat) < 100"
    by simp
  have h5: "earlier (2024, 1, 2) (2024, 1, 3)"
    by (simp add: earlier_def)
  have h6: "\<bar>10::rat\<bar> < 10 ^ 21"
    by simp
  note inst = quote_of_two_most_recent [OF h1, of 2024 1 2 2024 1 3 "\<lambda>r. []" "''SPY''" 10]
  have a: "slice_last2 (sort_key utf16 (object_keys ?ts)) = [''2024-01-02'', ''2024-01-03'']"
    using inst by (simp only: series_recent)
  have b: "utf16 (iso_date (2024, 1, 2)) < utf16 (iso_date (2024, 1, 3))"
    using inst h4 h5 by blast
  have c: "toFixed (\<lambda>r. []) 2 (Fin 10) = ''10.00''"
    using inst h6 two_decimals_10 by simp
  have "quoteOfSeries (\<lambda>r. []) ''SPY'' ?ts =
      Inr \<lparr>price = Fin 110,
           changePercent =
             toFixed (\<lambda>r. []) 2 (js_mul (js_div (js_sub (Fin 110) (Fin 100)) (Fin 100)) (Fin 100))\<rparr>"
    using inst unfolding series_recent h2 h3 by simp
  then have d: "quoteOfSeries (\<lambda>r. []) ''SPY'' ?ts =
      Inr \<lparr>price = Fin 110, changePercent = ''10.00''\<rparr>"
    unfolding rise_of_ten c .
  show ?thesis
    by (intro conjI; (rule h1 a b iso_date_samples h2 h3 rise_of_ten c d))
qed

lemma two_decimals_low: "two_decimals (11039096742871 / 8796093022208) = ''1.25''"
proof -
  have "round_half_up (\<bar>11039096742871 / 8796093022208\<bar> * 100) = 125"
    by (rule round_half_up_eq) simp_all
  then show ?thesis
    unfolding two_decimals_def by (simp add: show_nat.simps digit_char_def)
qed

lemma two_decimals_exact: "two_decimals (251 / 200) = ''1.26''"
proof -
  have "round_half_up (\<bar>251 / 200\<bar> * 100) = 126"
    by (rule round_half_up_eq) simp_all
  then show ?thesis
    unfolding two_decimals_def by (simp add: show_nat.simps digit_char_def)
qed

lemma quoteOfSeries_bare:
  "quoteOfSeries n2s symbol bare_series = Inr \<lparr>price = NaN, changePercent = ''NaN''\<rparr>"
proof -
  have bare: "2 \<le> length (object_keys bare_series)"
    by (simp add: bare_series_keys)
  have nan: "toFixed n2s 2 (js_mul (js_div (js_sub NaN NaN) NaN) (Fin 100)) = ''NaN''"
    by (simp add: arith_simps toFixed_def)
  show ?thesis
    unfolding quoteOfSeries_closes [OF bare] bare_series_recent bare_series_closes
    by (simp add: nan)
qed

text \<open>
  Claim C3 as stated fails. The closes \<^verbatim>\<open>100.0000\<close> and \<^verbatim>\<open>101.2550\<close> are the decimals
  \<open>100\<close> and \<open>20251 / 200\<close>; \<open>100 * change / previous close\<close> is \<open>251 / 200\<close>, which
  rounded to two places is \<^verbatim>\<open>1.26\<close>, but the code, which computes in doubles, renders
  \<^verbatim>\<open>1.25\<close>. And a series with two dates whose entries carry no close yields \<^verbatim>\<open>NaN\<close>, not
  a number with two decimal places.
\<close>

theorem rounding_counterexample:
  "read_literal ''100.0000'' = DecimalLiteral False 100
   \<and> read_literal ''101.2550'' = DecimalLiteral False (20251 / 200)
   \<and> 100 * (20251 / 200 - 100) / 100 = (251 / 200 :: rat)
   \<and> two_decimals (251 / 200) = ''1.26''
   \<and> quoteOfSeries (\<lambda>r. []) ''SPY'' (series ''100.0000'' ''101.2550'') =
        Inr \<lparr>price = Fin (890648398963671 / 8796093022208), changePercent = ''1.25''\<rparr>
   \<and> 2 \<le> length (object_keys bare_series)
   \<and> quoteOfSeries (\<lambda>r. []) ''SPY'' bare_series = Inr \<lparr>price = NaN, changePercent = ''NaN''\<rparr>"
proof -
  let ?ts = "series ''100.0000'' ''101.2550''"
  have l0: "read_literal ''100.0000'' = DecimalLiteral False 100"
    by (simp add: parse_simps)
  have x: "100 * (20251 / 200 - 100) / 100 = (251 / 200 :: rat)"
    by simp
  have keys: "2 \<le> length (object_keys ?ts)"
    by (simp add: series_keys)
  have "\<bar>11039096742871 / 8796093022208 :: rat\<bar> < 10 ^ 21"
    by simp
  then have print: "toFixed (\<lambda>r. []) 2 (Fin (11039096742871 / 8796093022208)) = ''1.25''"
    by (simp only: toFixed_two_decimals two_decimals_low)
  have q: "quoteOfSeries (\<lambda>r. []) ''SPY'' ?ts =
      Inr \<lparr>price = Fin (890648398963671 / 8796093022208), changePercent = ''1.25''\<rparr>"
    unfolding quoteOfSeries_closes [OF keys] series_recent series_closes parse_101 parse_100
    by (simp add: rise_of_101 print)
  have bare: "2 \<le> length (object_keys bare_series)"
    by (simp add: bare_series_keys)
  show ?thesis
    by (intro conjI; (rule l0 literal_101 x two_decimals_exact q bare quoteOfSeries_bare))
qed

section \<open>The market snapshot\<close>

lemma symbolQuote_series:
  assumes "fetch e (alphaVantageUrl e symbol) = json_ok (time_series ts)" and "truthy (Some ts)"
  shows "symbolQuote e symbol = quoteOfSeries (num2str e) symbol ts"
  using assms
  by (simp add: symbolQuote_def json_ok_def respond_def time_series_def get_def own_entries_def
      and_then_def)

lemma quoteOfSeries_series:
  "quoteOfSeries n2s symbol (series previous latest) =
     Inr \<lparr>price = parseFloat_str latest,
          changePercent =
            toFixed n2s 2
              (js_mul (js_div (js_sub (parseFloat_str latest) (parseFloat_str previous))
                 (parseFloat_str previous)) (Fin 100))\<rparr>"
proof -
  have "2 \<le> length (object_keys (series previous latest))"
    by (simp add: series_keys)
  from quoteOfSeries_closes [OF this] show ?thesis
    by (simp add: series_recent series_closes)
qed

lemma truthy_series: "truthy (Some (series previous latest))"
  by (simp add: truthy_def series_def)

lemma collectQuotes_both:
  assumes "symbolQuote e ''SPY'' = Inr spy" and "symbolQuote e ''QQQ'' = Inr qqq"
  shows "collectQuotes e [''SPY'', ''QQQ''] Map.empty = Inr [''SPY'' \<mapsto> spy, ''QQQ'' \<mapsto> qqq]"
  using assms by simp

lemma fetchMarketData_snapshot:
  assumes "symbolQuote e ''SPY'' = Inr spy" and "symbolQuote e ''QQQ'' = Inr qqq"
    and "fetch e coinGeckoUrl = json_ok bitcoin_price"
  shows "fetchMarketData e =
     Inr (snapshot (num2str e) spy qqq (toFixed (num2str e) 2 (Fin 64000))
            (toFixed (num2str e) 2 (Fin (- (5 / 4)))))"
  unfolding fetchMarketData_def fetchMarketData_try_def collectQuotes_both [OF assms(1,2)]
  using assms(3)
  by (simp add: and_then_def json_ok_def respond_def bitcoin_price_def get_def get_opt_def
      own_entries_def truthy_def call_toFixed_def)

lemma zero_division:
  assumes "is_zero P"
  shows "toFixed n2s 2 (js_mul (js_div C P) (Fin 100)) =
     (if is_nan C \<or> is_zero C then ''NaN''
      else if is_neg C \<noteq> is_neg P then ''-Infinity'' else ''Infinity'')"
proof -
  from assms consider "P = Fin 0" | "P = NegZero"
    by (cases P) (simp_all add: is_zero_def)
  then show ?thesis
  proof cases
    case 1
    then show ?thesis
      by (cases C)
        (simp_all add: js_div_def js_mul_def is_nan_def is_inf_def is_zero_def
          is_neg_def mk_zero_def mk_inf_def toFixed_def)
  next
    case 2
    then show ?thesis
      by (cases C)
        (simp_all add: js_div_def js_mul_def is_nan_def is_inf_def is_zero_def
          is_neg_def mk_zero_def mk_inf_def toFixed_def)
  qed
qed

text \<open>The difference of a double and a zero is the double, up to the sign of a zero.\<close>

lemma minus_zero:
  assumes "is_zero P" and "is_double L"
  shows "is_nan (js_sub L P) = is_nan L" and "is_zero (js_sub L P) = is_zero L"
    and "\<not> is_zero L \<Longrightarrow> js_sub L P = L"
proof -
  from assms(1) consider "P = Fin 0" | "P = NegZero"
    by (cases P) (simp_all add: is_zero_def)
  then have "is_nan (js_sub L P) = is_nan L \<and> is_zero (js_sub L P) = is_zero L
      \<and> (\<not> is_zero L \<longrightarrow> js_sub L P = L)"
  proof cases
    case 1
    with assms(2) show ?thesis
      by (cases L)
        (auto simp: js_sub_def is_nan_def is_inf_def is_zero_def is_double_def value_of_def
          mk_fin_def mk_zero_def)
  next
    case 2
    with assms(2) show ?thesis
      by (cases L)
        (auto simp: js_sub_def is_nan_def is_inf_def is_zero_def is_double_def value_of_def
          mk_fin_def mk_zero_def)
  qed
  then show "is_nan (js_sub L P) = is_nan L" and "is_zero (js_sub L P) = is_zero L"
    and "\<not> is_zero L \<Longrightarrow> js_sub L P = L"
    by blast+
qed

lemma fixed_110: "toFixed n2s 2 (Fin 110) = ''110.00''"
  by (simp add: toFixed_two_decimals print_simps)

lemma fixed_398: "toFixed n2s 2 (Fin 398) = ''398.00''"
  by (simp add: toFixed_two_decimals print_simps)

lemma fixed_64000: "toFixed n2s 2 (Fin 64000) = ''64000.00''"
  by (simp add: toFixed_two_decimals print_simps)

lemma fixed_btc_change: "toFixed n2s 2 (Fin (- (5 / 4))) = ''-1.25''"
  by (simp add: toFixed_two_decimals print_simps)

lemma fixed_half: "toFixed n2s 2 (Fin (- (1 / 2))) = ''-0.50''"
  by (simp add: toFixed_two_decimals print_simps)

lemma rise_from_zero: "js_sub (Fin 110) (Fin 0) = Fin 110"
  by (simp add: arith_simps round_double_numeral)

text \<open>
  Claim C4, as amended. When the previous close of a time series with at least two dates
  is zero, the division is carried out. If the latest date has no close the code throws a
  TypeError, as it does for every previous close; otherwise the quote is produced without
  an error, and its \<^verbatim>\<open>changePercent\<close> is \<^verbatim>\<open>NaN\<close> when the difference of the two closes is
  zero or not a number, and \<^verbatim>\<open>Infinity\<close> or \<^verbatim>\<open>-Infinity\<close>, by the signs of the difference
  and of the zero, otherwise. The difference is zero or not a number exactly when the
  latest close is, and is the latest close itself otherwise, for a latest close that is a
  double.
\<close>

theorem zero_previous_close:
  assumes "2 \<le> length (object_keys ts)"
    and "close_on ts (previous_date ts) = Some P"
    and "is_zero P"
  shows "quoteOfSeries n2s symbol ts =
       (case close_on ts (latest_date ts) of
          None \<Rightarrow> Inl TypeError
        | Some L \<Rightarrow>
            Inr \<lparr>price = L,
                 changePercent =
                   (if is_nan (js_sub L P) \<or> is_zero (js_sub L P) then ''NaN''
                    else if is_neg (js_sub L P) \<noteq> is_neg P then ''-Infinity''
                    else ''Infinity'')\<rparr>)
     \<and> (is_double D \<longrightarrow>
          is_nan (js_sub D P) = is_nan D \<and> is_zero (js_sub D P) = is_zero D
          \<and> (\<not> is_zero D \<longrightarrow> js_sub D P = D))"
proof -
  have "quoteOfSeries n2s symbol ts =
      (case close_on ts (latest_date ts) of
         None \<Rightarrow> Inl TypeError
       | Some L \<Rightarrow>
           Inr \<lparr>price = L,
                changePercent =
                   (if is_nan (js_sub L P) \<or> is_zero (js_sub L P) then ''NaN''
                    else if is_neg (js_sub L P) \<noteq> is_neg P then ''-Infinity''
                    else ''Infinity'')\<rparr>)"
    unfolding quoteOfSeries_closes [OF assms(1)] assms(2)
    by (simp add: zero_division [OF assms(3)] split: option.splits)
  moreover have "is_double D \<longrightarrow>
      is_nan (js_sub D P) = is_nan D \<and> is_zero (js_sub D P) = is_zero D
      \<and> (\<not> is_zero D \<longrightarrow> js_sub D P = D)"
    using minus_zero [OF assms(3), of D] by blast
  ultimately show ?thesis
    by (rule conjI)
qed

theorem zero_previous_close_witness:
  "2 \<le> length (object_keys (series ''0.0000'' ''110.0000''))
   \<and> close_on (series ''0.0000'' ''110.0000'') (previous_date (series ''0.0000'' ''110.0000'')) =
       Some (Fin 0)
   \<and> is_zero (Fin 0)
   \<and> close_on (series ''0.0000'' ''110.0000'') (latest_date (series ''0.0000'' ''110.0000'')) =
       Some (Fin 110)
   \<and> is_double (Fin 110)
   \<and> js_sub (Fin 110) (Fin 0) = Fin 110
   \<and> quoteOfSeries (\<lambda>r. []) ''SPY'' (series ''0.0000'' ''110.0000'') =
       Inr \<lparr>price = Fin 110, changePercent = ''Infinity''\<rparr>"
proof -
  let ?ts = "series ''0.0000'' ''110.0000''"
  have h1: "2 \<le> length (object_keys ?ts)"
    by (simp add: series_keys)
  have h2: "close_on ?ts (previous_date ?ts) = Some (Fin 0)"
    by (simp add: series_recent series_closes parse_zero)
  have h3: "is_zero (Fin 0)"
    by (simp add: is_zero_def)
  have h4: "close_on ?ts (latest_date ?ts) = Some (Fin 110)"
    by (simp add: series_recent series_closes parse_110)
  have h5: "is_double (Fin 110)"
    by (simp add: is_double_def round_double_numeral)
  have nz: "\<not> is_zero (Fin 110)" "\<not> is_nan (Fin 110)" "is_neg (Fin 110) = is_neg (Fin 0)"
    by (simp_all add: is_zero_def is_nan_def is_neg_def)
  note inst = zero_previous_close [OF h1 h2 h3, of "\<lambda>r. []" "''SPY''" "Fin 110"]
  from inst h5 nz(1) have d: "js_sub (Fin 110) (Fin 0) = Fin 110"
    by blast
  from inst have q: "quoteOfSeries (\<lambda>r. []) ''SPY'' ?ts =
      Inr \<lparr>price = Fin 110, changePercent = ''Infinity''\<rparr>"
    using nz by (simp add: h4 d)
  show ?thesis
    by (intro conjI; (rule h1 h2 h3 h4 h5 d q))
qed

lemma zero_close_fetches:
  "fetch zero_close (alphaVantageUrl zero_close ''SPY'') =
     json_ok (time_series (series ''0.0000'' ''110.0000''))"
  "fetch zero_close (alphaVantageUrl zero_close ''QQQ'') =
     json_ok (time_series (series ''400.0000'' ''398.0000''))"
  "fetch zero_close coinGeckoUrl = json_ok bitcoin_price"
  by (simp_all add: zero_close_def market_def offline_def alphaVantageUrl_def env_string_def
      coinGeckoUrl_def)

lemma fetchMarketData_zero_close:
  "fetchMarketData zero_close =
     Inr ''Market snapshot: S&P 500 (via SPY): $110.00 (Infinity%), Nasdaq (via QQQ): $398.00 (-0.50%), Bitcoin: $64000.00 (-1.25%)''"
proof -
  have n2s: "num2str zero_close = (\<lambda>r. [])"
    by (simp add: zero_close_def market_def offline_def)
  have "toFixed (\<lambda>r. []) 2 (js_mul (js_div (js_sub (Fin 110) (Fin 0)) (Fin 0)) (Fin 100)) =
      ''Infinity''"
    unfolding rise_from_zero using zero_division [of "Fin 0" "\<lambda>r. []" "Fin 110"]
    by (simp add: is_nan_def is_zero_def is_neg_def)
  then have spy: "symbolQuote zero_close ''SPY'' =
      Inr \<lparr>price = Fin 110, changePercent = ''Infinity''\<rparr>"
    unfolding symbolQuote_series [OF zero_close_fetches(1) truthy_series] quoteOfSeries_series n2s
    by (simp add: parse_110 parse_zero)
  have qqq: "symbolQuote zero_close ''QQQ'' =
      Inr \<lparr>price = Fin 398, changePercent = ''-0.50''\<rparr>"
    unfolding symbolQuote_series [OF zero_close_fetches(2) truthy_series] quoteOfSeries_series n2s
    by (simp add: parse_400 parse_398 fall_of_two fixed_half)
  show ?thesis
    unfolding fetchMarketData_snapshot [OF spy qqq zero_close_fetches(3)] n2s
    by (simp add: snapshot_def fixed_110 fixed_398 fixed_64000 fixed_btc_change)
qed

text \<open>
  Claim C4 as stated fails: with a previous close of zero for SPY the collector returns a
  snapshot in which the change of SPY is \<^verbatim>\<open>Infinity\<close>, not the placeholder.
\<close>

theorem zero_close_counterexample:
  "close_on (series ''0.0000'' ''110.0000'') (previous_date (series ''0.0000'' ''110.0000'')) =
     Some (Fin 0)
   \<and> fetch zero_close (alphaVantageUrl zero_close ''SPY'') =
       json_ok (time_series (series ''0.0000'' ''110.0000''))
   \<and> fetchMarketData zero_close =
       Inr ''Market snapshot: S&P 500 (via SPY): $110.00 (Infinity%), Nasdaq (via QQQ): $398.00 (-0.50%), Bitcoin: $64000.00 (-1.25%)''
   \<and> fetchMarketData zero_close \<noteq> Inr ''Market data unavailable''"
proof -
  have prev: "close_on (series ''0.0000'' ''110.0000'')
      (previous_date (series ''0.0000'' ''110.0000'')) = Some (Fin 0)"
    by (simp add: series_recent series_closes parse_zero)
  show ?thesis
    unfolding fetchMarketData_zero_close using prev zero_close_fetches(1) by simp
qed

section \<open>The failure policy of the market snapshot\<close>

lemma slice_last2_length: "length (slice_last2 xs) = min 2 (length xs)"
  by (simp add: slice_last2_def)

lemma quoteOfSeries_insufficient:
  "length (object_keys ts) < 2 \<Longrightarrow> quoteOfSeries n2s symbol ts = Inl (InsufficientData symbol)"
  by (simp add: quoteOfSeries_def slice_last2_length)

lemma quoteOfSeries_throws:
  "(\<exists>err. quoteOfSeries n2s symbol ts = Inl err) \<longleftrightarrow>
     length (object_keys ts) < 2 \<or> close_on ts (latest_date ts) = None
     \<or> close_on ts (previous_date ts) = None"
proof (cases "length (object_keys ts) < 2")
  case True
  then show ?thesis
    by (simp add: quoteOfSeries_insufficient)
next
  case False
  then have "2 \<le> length (object_keys ts)"
    by simp
  from quoteOfSeries_closes [OF this] False show ?thesis
    by (auto split: option.splits)
qed

text \<open>The body of the loop throws exactly on the failures of an equity.\<close>

lemma symbolQuote_throws:
  "(\<exists>err. symbolQuote e symbol = Inl err) \<longleftrightarrow> equity_failure e symbol"
proof (cases "fetch e (alphaVantageUrl e symbol)")
  case Rejects
  then show ?thesis
    by (simp add: symbolQuote_def equity_failure_def)
next
  case fetched: (Resolves r)
  show ?thesis
  proof (cases "ok r")
    case False
    with fetched show ?thesis
      by (cases "body_text r") (simp_all add: symbolQuote_def equity_failure_def)
  next
    case True
    show ?thesis
    proof (cases "body_json r")
      case Rejects
      with fetched True show ?thesis
        by (simp add: symbolQuote_def equity_failure_def)
    next
      case json: (Resolves data)
      show ?thesis
      proof (cases "get data ''Time Series (Daily)''")
        case (Inl err)
        with fetched True json show ?thesis
          by (simp add: symbolQuote_def equity_failure_def and_then_def)
      next
        case (Inr timeSeries)
        show ?thesis
        proof (cases timeSeries)
          case None
          with fetched True json Inr show ?thesis
            by (simp add: symbolQuote_def equity_failure_def and_then_def)
        next
          case (Some ts)
          show ?thesis
          proof (cases "truthy (Some ts)")
            case False
            with fetched True json Inr Some show ?thesis
              by (simp add: symbolQuote_def equity_failure_def and_then_def)
          next
            case truthy: True
            with fetched True json Inr Some
            have "symbolQuote e symbol = quoteOfSeries (num2str e) symbol ts"
              by (simp add: symbolQuote_def and_then_def)
            moreover from fetched True json Inr Some truthy
            have "equity_failure e symbol \<longleftrightarrow>
                length (object_keys ts) < 2 \<or> close_on ts (latest_date ts) = None
                \<or> close_on ts (previous_date ts) = None"
              by (simp add: equity_failure_def)
            ultimately show ?thesis
              by (simp only: quoteOfSeries_throws)
          qed
        qed
      qed
    qed
  qed
qed

lemma symbolQuote_returns:
  "\<not> equity_failure e symbol \<Longrightarrow> \<exists>q. symbolQuote e symbol = Inr q"
  using symbolQuote_throws [of e symbol] by (cases "symbolQuote e symbol") auto

lemma collectQuotes_throws:
  assumes "equity_failure e ''SPY'' \<or> equity_failure e ''QQQ''"
  shows "\<exists>err. collectQuotes e [''SPY'', ''QQQ''] Map.empty = Inl err"
proof (cases "symbolQuote e ''SPY''")
  case (Inl err)
  then show ?thesis by simp
next
  case (Inr spy)
  with assms symbolQuote_throws [of e "''SPY''"] have "equity_failure e ''QQQ''"
    by auto
  with symbolQuote_throws [of e "''QQQ''"] Inr show ?thesis
    by auto
qed

text \<open>The part of the \<^verbatim>\<open>try\<close> block after the loop, lines 92-120.\<close>

lemma bitcoin_part:
  assumes "symbolQuote e ''SPY'' = Inr spy" and "symbolQuote e ''QQQ'' = Inr qqq"
  shows "bitcoin_failure e \<Longrightarrow> \<exists>err. fetchMarketData_try e = Inl err"
    and "\<not> bitcoin_failure e \<Longrightarrow>
      \<exists>btc change. fetchMarketData_try e = Inr (snapshot (num2str e) spy qqq btc change)"
proof -
  note quotes = collectQuotes_both [OF assms]
  have "(bitcoin_failure e \<longrightarrow> (\<exists>err. fetchMarketData_try e = Inl err))
      \<and> (\<not> bitcoin_failure e \<longrightarrow>
          (\<exists>btc change. fetchMarketData_try e = Inr (snapshot (num2str e) spy qqq btc change)))"
  proof (cases "fetch e coinGeckoUrl")
    case Rejects
    then show ?thesis
      by (unfold fetchMarketData_try_def quotes) (simp add: bitcoin_failure_def and_then_def)
  next
    case fetched: (Resolves r)
    show ?thesis
    proof (cases "ok r")
      case False
      with fetched show ?thesis
        by (unfold fetchMarketData_try_def quotes, cases "body_text r")
          (simp_all add: bitcoin_failure_def and_then_def)
    next
      case True
      show ?thesis
      proof (cases "body_json r")
        case Rejects
        with fetched True show ?thesis
          by (unfold fetchMarketData_try_def quotes) (simp add: bitcoin_failure_def and_then_def)
      next
        case json: (Resolves cgData)
        show ?thesis
        proof (cases "get cgData ''bitcoin''")
          case (Inl err)
          with fetched True json show ?thesis
            by (unfold fetchMarketData_try_def quotes) (simp add: bitcoin_failure_def and_then_def)
        next
          case got: (Inr btcData)
          show ?thesis
          proof (cases "truthy btcData")
            case False
            with fetched True json got show ?thesis
              by (unfold fetchMarketData_try_def quotes) (simp add: bitcoin_failure_def and_then_def)
          next
            case truthy: True
            have tail: "fetchMarketData_try e =
                and_then (get_opt btcData ''usd'') (\<lambda>btcPrice.
                and_then (get_opt btcData ''usd_24h_change'') (\<lambda>btcChange.
                and_then (call_toFixed (num2str e) btcChange) (\<lambda>btcChangePercent.
                and_then (call_toFixed (num2str e) btcPrice) (\<lambda>btc.
                  Inr (snapshot (num2str e) spy qqq btc btcChangePercent)))))"
              using fetched True json got truthy
              by (unfold fetchMarketData_try_def quotes)
                (simp add: and_then_def split: sum.splits)
            have failure: "bitcoin_failure e \<longleftrightarrow>
                \<not> number_field btcData ''usd'' \<or> \<not> number_field btcData ''usd_24h_change''"
              using fetched True json got truthy by (simp add: bitcoin_failure_def)
            show ?thesis
              unfolding tail failure
              by (auto simp: number_field_def call_toFixed_def and_then_def
                  split: sum.splits option.splits json.splits)
          qed
        qed
      qed
    qed
  qed
  then show "bitcoin_failure e \<Longrightarrow> \<exists>err. fetchMarketData_try e = Inl err"
    and "\<not> bitcoin_failure e \<Longrightarrow>
      \<exists>btc change. fetchMarketData_try e = Inr (snapshot (num2str e) spy qqq btc change)"
    by blast+
qed

lemma snapshot_not_placeholder: "snapshot n2s spy qqq btc change \<noteq> ''Market data unavailable''"
  by (simp add: snapshot_def)

lemma fetchMarketData_snapshot_returned:
  assumes "\<not> (equity_failure e ''SPY'' \<or> equity_failure e ''QQQ'' \<or> bitcoin_failure e)"
  shows "\<exists>spy qqq btc change. fetchMarketData e = Inr (snapshot (num2str e) spy qqq btc change)"
proof -
  from assms obtain spy qqq where
    q: "symbolQuote e ''SPY'' = Inr spy" "symbolQuote e ''QQQ'' = Inr qqq"
    using symbolQuote_returns [of e "''SPY''"] symbolQuote_returns [of e "''QQQ''"] by blast
  from assms have "\<not> bitcoin_failure e"
    by simp
  from bitcoin_part(2) [OF q this] obtain btc change where
    "fetchMarketData_try e = Inr (snapshot (num2str e) spy qqq btc change)"
    by blast
  then have "fetchMarketData e = Inr (snapshot (num2str e) spy qqq btc change)"
    by (simp add: fetchMarketData_def)
  then show ?thesis
    by blast
qed

lemma fetchMarketData_placeholder:
  "fetchMarketData e = Inr ''Market data unavailable'' \<longleftrightarrow>
     equity_failure e ''SPY'' \<or> equity_failure e ''QQQ'' \<or> bitcoin_failure e"
proof (cases "equity_failure e ''SPY'' \<or> equity_failure e ''QQQ''")
  case True
  from collectQuotes_throws [OF this] have "\<exists>err. fetchMarketData_try e = Inl err"
    by (auto simp: fetchMarketData_try_def and_then_def)
  with True show ?thesis
    by (auto simp: fetchMarketData_def unavailable_def)
next
  case False
  then obtain spy qqq where q: "symbolQuote e ''SPY'' = Inr spy" "symbolQuote e ''QQQ'' = Inr qqq"
    using symbolQuote_returns [of e "''SPY''"] symbolQuote_returns [of e "''QQQ''"] by blast
  show ?thesis
  proof (cases "bitcoin_failure e")
    case True
    from bitcoin_part(1) [OF q this] True show ?thesis
      by (auto simp: fetchMarketData_def unavailable_def)
  next
    case no_failure: False
    from bitcoin_part(2) [OF q this] obtain btc change where
      "fetchMarketData_try e = Inr (snapshot (num2str e) spy qqq btc change)"
      by blast
    then have "fetchMarketData e = Inr (snapshot (num2str e) spy qqq btc change)"
      by (simp add: fetchMarketData_def)
    with False no_failure show ?thesis
      using snapshot_not_placeholder [of "num2str e" spy qqq btc change] by simp
  qed
qed

text \<open>The collector of the earlier revisions.\<close>

lemma fetch_json_unread:
  "quote_unread e url \<longleftrightarrow> (\<exists>err. fetch_json e url = Inl err) \<or> fetch_json e url = Inr JNull"
  by (auto simp: quote_unread_def fetch_json_def split: promise.splits)

lemma fetch_json_answer: "fetch_json e url = Inr d \<Longrightarrow> answer e url = d"
  by (auto simp: answer_def fetch_json_def split: promise.splits)

lemma field_or_NA_null: "field_or_NA JNull outer inner = Inl TypeError"
  by (simp add: field_or_NA_def get_def and_then_def)

lemma field_or_NA_shown:
  assumes "obj \<noteq> JNull"
  shows "field_or_NA obj outer inner = Inr (shown_field obj outer inner)"
proof (cases "map_of (own_entries obj) outer")
  case None
  with assms show ?thesis
    by (simp add: field_or_NA_def get_own get_chain_def and_then_def shown_field_def
        field_of_def truthy_def)
next
  case (Some quoted)
  show ?thesis
  proof (cases "quoted = JNull")
    case True
    with assms Some show ?thesis
      by (simp add: field_or_NA_def get_own get_chain_def and_then_def shown_field_def
          field_of_def truthy_def)
  next
    case False
    then have chain: "get_chain (Some quoted) inner = Inr (map_of (own_entries quoted) inner)"
      by (cases quoted) (simp_all add: get_chain_def get_def)
    from False Some have field: "field_of obj outer inner = map_of (own_entries quoted) inner"
      by (cases quoted) (simp_all add: field_of_def)
    show ?thesis
    proof (cases "map_of (own_entries quoted) inner")
      case None
      with assms Some chain field show ?thesis
        by (simp add: field_or_NA_def get_own and_then_def shown_field_def truthy_def)
    next
      case found: (Some w)
      with assms Some chain field show ?thesis
        by (simp add: field_or_NA_def get_own and_then_def shown_field_def)
    qed
  qed
qed

lemma snapshot_v1_not_placeholder: "snapshot_v1 a b c d f \<noteq> ''Market data unavailable''"
  by (simp add: snapshot_v1_def)

lemma fetchMarketData_v1_unread:
  assumes "quote_unread e (globalQuoteUrl e ''^GSPC'') \<or> quote_unread e (globalQuoteUrl e ''^IXIC'')
    \<or> quote_unread e (exchangeRateUrl e)"
  shows "\<exists>err. fetchMarketData_v1_try e = Inl err"
proof (cases "fetch_json e (globalQuoteUrl e ''^GSPC'')")
  case (Inl err)
  then show ?thesis by (simp add: fetchMarketData_v1_try_def and_then_def)
next
  case sp: (Inr sp500)
  show ?thesis
  proof (cases "fetch_json e (globalQuoteUrl e ''^IXIC'')")
    case (Inl err)
    with sp show ?thesis by (simp add: fetchMarketData_v1_try_def and_then_def)
  next
    case nq: (Inr nasdaq)
    show ?thesis
    proof (cases "fetch_json e (exchangeRateUrl e)")
      case (Inl err)
      with sp nq show ?thesis by (simp add: fetchMarketData_v1_try_def and_then_def)
    next
      case bt: (Inr bitcoin)
      from assms sp nq bt have null: "sp500 = JNull \<or> nasdaq = JNull \<or> bitcoin = JNull"
        by (auto simp: fetch_json_unread)
      show ?thesis
        unfolding fetchMarketData_v1_try_def sp nq bt
        using null by (auto simp: field_or_NA_null and_then_def split: sum.splits)
    qed
  qed
qed

lemma fetchMarketData_v1_read:
  assumes "\<not> quote_unread e (globalQuoteUrl e ''^GSPC'')"
    and "\<not> quote_unread e (globalQuoteUrl e ''^IXIC'')"
    and "\<not> quote_unread e (exchangeRateUrl e)"
  shows "fetchMarketData_v1_try e =
     and_then (js_toString (num2str e) (shown_fields e ! 0)) (\<lambda>a.
     and_then (js_toString (num2str e) (shown_fields e ! 1)) (\<lambda>b.
     and_then (js_toString (num2str e) (shown_fields e ! 2)) (\<lambda>c.
     and_then (js_toString (num2str e) (shown_fields e ! 3)) (\<lambda>d.
     and_then (js_toString (num2str e) (shown_fields e ! 4)) (\<lambda>f.
       Inr (snapshot_v1 a b c d f))))))"
proof -
  have r: "\<exists>d. fetch_json e url = Inr d \<and> d \<noteq> JNull" if "\<not> quote_unread e url" for url
    using that unfolding fetch_json_unread by (cases "fetch_json e url") auto
  from assms(1) r obtain sp500 where
    1: "fetch_json e (globalQuoteUrl e ''^GSPC'') = Inr sp500" "sp500 \<noteq> JNull"
    by blast
  from assms(2) r obtain nasdaq where
    2: "fetch_json e (globalQuoteUrl e ''^IXIC'') = Inr nasdaq" "nasdaq \<noteq> JNull"
    by blast
  from assms(3) r obtain bitcoin where
    3: "fetch_json e (exchangeRateUrl e) = Inr bitcoin" "bitcoin \<noteq> JNull"
    by blast
  note answers = fetch_json_answer [OF 1(1)] fetch_json_answer [OF 2(1)]
    fetch_json_answer [OF 3(1)]
  show ?thesis
    unfolding fetchMarketData_v1_try_def 1(1) 2(1) 3(1) shown_fields_def answers
    by (simp add: and_then_def field_or_NA_shown 1(2) 2(2) 3(2))
qed

lemma fetchMarketData_v1_printable:
  assumes "\<not> v1_failure e"
  shows "fetchMarketData_v1 e =
     Inr (snapshot_v1 (text_of (num2str e) (shown_fields e ! 0))
            (text_of (num2str e) (shown_fields e ! 1)) (text_of (num2str e) (shown_fields e ! 2))
            (text_of (num2str e) (shown_fields e ! 3)) (text_of (num2str e) (shown_fields e ! 4)))"
proof -
  from assms have read: "\<not> quote_unread e (globalQuoteUrl e ''^GSPC'')"
    "\<not> quote_unread e (globalQuoteUrl e ''^IXIC'')" "\<not> quote_unread e (exchangeRateUrl e)"
    and all: "list_all printable (shown_fields e)"
    by (simp_all add: v1_failure_def)
  have len: "length (shown_fields e) = 5"
    by (simp add: shown_fields_def)
  have "printable (shown_fields e ! i)" if "i < 5" for i
    using all that len by (simp add: list_all_length)
  then have p: "js_toString (num2str e) (shown_fields e ! i) =
      Inr (text_of (num2str e) (shown_fields e ! i))" if "i < 5" for i
    using that by (simp add: js_toString_text)
  show ?thesis
    unfolding fetchMarketData_v1_def fetchMarketData_v1_read [OF read]
    by (simp add: p and_then_def)
qed

lemma fetchMarketData_v1_unprintable:
  assumes "\<not> quote_unread e (globalQuoteUrl e ''^GSPC'')"
    and "\<not> quote_unread e (globalQuoteUrl e ''^IXIC'')"
    and "\<not> quote_unread e (exchangeRateUrl e)"
    and "\<not> list_all printable (shown_fields e)"
  shows "\<exists>err. fetchMarketData_v1_try e = Inl err"
proof -
  have len: "length (shown_fields e) = 5"
    by (simp add: shown_fields_def)
  have each: "(\<exists>s. js_toString (num2str e) (shown_fields e ! i) = Inr s)
      \<or> js_toString (num2str e) (shown_fields e ! i) = Inl TypeError" for i
    using js_toString_printable [of "shown_fields e ! i" "num2str e"] by blast
  from assms(4) len obtain i where i: "i < 5" "\<not> printable (shown_fields e ! i)"
    by (auto simp: list_all_length)
  then have thrown: "js_toString (num2str e) (shown_fields e ! i) = Inl TypeError"
    by (simp add: js_toString_throws)
  from i(1) consider "i = 0" | "i = 1" | "i = 2" | "i = 3" | "i = 4"
    by atomize_elim presburger
  then show ?thesis
    unfolding fetchMarketData_v1_read [OF assms(1-3)]
    using thrown each [of 0] each [of 1] each [of 2] each [of 3] each [of 4]
    by cases (auto simp: and_then_def)
qed

lemma fetchMarketData_v1_placeholder:
  "fetchMarketData_v1 e = Inr ''Market data unavailable'' \<longleftrightarrow> v1_failure e"
proof (cases "v1_failure e")
  case False
  with fetchMarketData_v1_printable [OF False] show ?thesis
    by (simp add: snapshot_v1_not_placeholder)
next
  case True
  have "\<exists>err. fetchMarketData_v1_try e = Inl err"
  proof (cases "quote_unread e (globalQuoteUrl e ''^GSPC'')
      \<or> quote_unread e (globalQuoteUrl e ''^IXIC'') \<or> quote_unread e (exchangeRateUrl e)")
    case True
    then show ?thesis
      by (rule fetchMarketData_v1_unread)
  next
    case False
    with True show ?thesis
      by (intro fetchMarketData_v1_unprintable) (simp_all add: v1_failure_def)
  qed
  with True show ?thesis
    by (auto simp: fetchMarketData_v1_def unavailable_def)
qed

lemma shown_field_missing:
  "field_of obj outer inner = None \<Longrightarrow> text_of n2s (shown_field obj outer inner) = ''N/A''"
  by (simp add: shown_field_def truthy_def text_of_def)

text \<open>
  Claim C1, as amended. The collector of daily-brief.ts returns the placeholder exactly
  when it detects a failure of one of the three instruments: a fetch that rejects, a
  status that is not ok, a body that is not JSON or lacks the expected member, a series
  with fewer than two dates or without a close on one of its two most recent dates, a
  price or change of Bitcoin that is not a number. The collector of the earlier revisions
  returns the placeholder exactly when an answer cannot be read or a value it shows cannot
  be converted to a string; for every other invocation it returns a snapshot of the five
  values it shows, and the value it shows for a field the answer lacks is \<^verbatim>\<open>N/A\<close>.
\<close>

theorem market_failure_policy:
  "(fetchMarketData e = Inr ''Market data unavailable'' \<longleftrightarrow>
      equity_failure e ''SPY'' \<or> equity_failure e ''QQQ'' \<or> bitcoin_failure e)
   \<and> (\<not> (equity_failure e ''SPY'' \<or> equity_failure e ''QQQ'' \<or> bitcoin_failure e) \<longrightarrow>
        (\<exists>spy qqq btc change.
           fetchMarketData e = Inr (snapshot (num2str e) spy qqq btc change)))
   \<and> (fetchMarketData_v1 e = Inr ''Market data unavailable'' \<longleftrightarrow> v1_failure e)
   \<and> (\<not> v1_failure e \<longrightarrow>
        fetchMarketData_v1 e =
          Inr (snapshot_v1 (text_of (num2str e) (shown_fields e ! 0))
                 (text_of (num2str e) (shown_fields e ! 1))
                 (text_of (num2str e) (shown_fields e ! 2))
                 (text_of (num2str e) (shown_fields e ! 3))
                 (text_of (num2str e) (shown_fields e ! 4))))
   \<and> (field_of obj outer inner = None \<longrightarrow>
        text_of n2s (shown_field obj outer inner) = ''N/A'')"
proof -
  have "\<not> (equity_failure e ''SPY'' \<or> equity_failure e ''QQQ'' \<or> bitcoin_failure e) \<longrightarrow>
      (\<exists>spy qqq btc change.
         fetchMarketData e = Inr (snapshot (num2str e) spy qqq btc change))"
    using fetchMarketData_snapshot_returned [of e] by blast
  moreover have "\<not> v1_failure e \<longrightarrow>
      fetchMarketData_v1 e =
        Inr (snapshot_v1 (text_of (num2str e) (shown_fields e ! 0))
               (text_of (num2str e) (shown_fields e ! 1))
               (text_of (num2str e) (shown_fields e ! 2))
               (text_of (num2str e) (shown_fields e ! 3))
               (text_of (num2str e) (shown_fields e ! 4)))"
    using fetchMarketData_v1_printable [of e] by blast
  moreover have "field_of obj outer inner = None \<longrightarrow>
      text_of n2s (shown_field obj outer inner) = ''N/A''"
    using shown_field_missing [of obj outer inner n2s] by blast
  ultimately show ?thesis
    using fetchMarketData_placeholder [of e] fetchMarketData_v1_placeholder [of e]
    by (intro conjI)
qed

lemma throttled_answers:
  "answer throttled (globalQuoteUrl throttled ''^GSPC'') =
     JObj [(''Global Quote'',
            JObj [(''01. symbol'', JStr ''^GSPC''), (''05. price'', JStr ''5000.0000''),
                  (''10. change percent'', JStr ''0.5000%'')])]"
  "answer throttled (globalQuoteUrl throttled ''^IXIC'') = rate_limit_note"
  "answer throttled (exchangeRateUrl throttled) =
     JObj [(''Realtime Currency Exchange Rate'',
            JObj [(''5. Exchange Rate'', JStr ''64000.00000000'')])]"
  by (simp_all add: answer_def throttled_def market_def offline_def globalQuoteUrl_def
      exchangeRateUrl_def env_string_def json_ok_def respond_def coinGeckoUrl_def)

lemma throttled_read:
  "\<not> quote_unread throttled (globalQuoteUrl throttled ''^GSPC'')"
  "\<not> quote_unread throttled (globalQuoteUrl throttled ''^IXIC'')"
  "\<not> quote_unread throttled (exchangeRateUrl throttled)"
  by (simp_all add: quote_unread_def throttled_def market_def offline_def globalQuoteUrl_def
      exchangeRateUrl_def env_string_def json_ok_def respond_def coinGeckoUrl_def
      rate_limit_note_def)

lemma throttled_shown:
  "shown_fields throttled =
     [JStr ''5000.0000'', JStr ''0.5000%'', JStr ''N/A'', JStr ''N/A'', JStr ''64000.00000000'']"
  unfolding shown_fields_def throttled_answers
  by (simp add: shown_field_def field_of_def own_entries_def truthy_def rate_limit_note_def)

lemma throttled_no_failure: "\<not> v1_failure throttled"
  by (simp add: v1_failure_def throttled_read throttled_shown)

lemma throttled_equity: "equity_failure throttled ''QQQ''"
  by (simp add: equity_failure_def throttled_def market_def offline_def alphaVantageUrl_def
      env_string_def json_ok_def respond_def rate_limit_note_def get_def own_entries_def)

theorem market_failure_policy_witness:
  "equity_failure throttled ''QQQ''
   \<and> fetchMarketData throttled = Inr ''Market data unavailable''
   \<and> \<not> equity_failure zero_close ''SPY'' \<and> \<not> equity_failure zero_close ''QQQ''
   \<and> \<not> bitcoin_failure zero_close
   \<and> (\<exists>spy qqq btc change.
         fetchMarketData zero_close = Inr (snapshot (\<lambda>r. []) spy qqq btc change))
   \<and> v1_failure offline
   \<and> fetchMarketData_v1 offline = Inr ''Market data unavailable''
   \<and> \<not> v1_failure throttled
   \<and> fetchMarketData_v1 throttled =
       Inr ''Market snapshot: S&P 500: 5000.0000 (0.5000%), Nasdaq: N/A (N/A), Bitcoin: $64000.00000000''
   \<and> field_of rate_limit_note ''Global Quote'' ''05. price'' = None
   \<and> text_of (\<lambda>r. []) (shown_field rate_limit_note ''Global Quote'' ''05. price'') = ''N/A''"
proof -
  have a: "v1_failure offline"
    by (simp add: v1_failure_def quote_unread_def offline_def)
  have b: "field_of rate_limit_note ''Global Quote'' ''05. price'' = None"
    by (simp add: field_of_def rate_limit_note_def own_entries_def)
  note online = market_failure_policy [of throttled rate_limit_note "''Global Quote''"
      "''05. price''" "\<lambda>r. []"]
  note off = market_failure_policy [of offline rate_limit_note "''Global Quote''"
      "''05. price''" "\<lambda>r. []"]
  have c: "fetchMarketData throttled = Inr ''Market data unavailable''"
    using online throttled_equity by blast
  note zero = market_failure_policy [of zero_close rate_limit_note "''Global Quote''"
      "''05. price''" "\<lambda>r. []"]
  have "fetchMarketData zero_close \<noteq> Inr ''Market data unavailable''"
    unfolding fetchMarketData_zero_close by simp
  with zero have none: "\<not> (equity_failure zero_close ''SPY'' \<or> equity_failure zero_close ''QQQ''
      \<or> bitcoin_failure zero_close)"
    by blast
  then have n1: "\<not> equity_failure zero_close ''SPY''"
    and n2: "\<not> equity_failure zero_close ''QQQ''" and n3: "\<not> bitcoin_failure zero_close"
    by blast+
  have "num2str zero_close = (\<lambda>r. [])"
    by (simp add: zero_close_def market_def offline_def)
  with zero none have s: "\<exists>spy qqq btc change.
      fetchMarketData zero_close = Inr (snapshot (\<lambda>r. []) spy qqq btc change)"
    by simp
  have d: "fetchMarketData_v1 offline = Inr ''Market data unavailable''"
    using off a by blast
  have "fetchMarketData_v1 throttled =
      Inr (snapshot_v1 (text_of (num2str throttled) (shown_fields throttled ! 0))
             (text_of (num2str throttled) (shown_fields throttled ! 1))
             (text_of (num2str throttled) (shown_fields throttled ! 2))
             (text_of (num2str throttled) (shown_fields throttled ! 3))
             (text_of (num2str throttled) (shown_fields throttled ! 4)))"
    using online throttled_no_failure by blast
  then have f: "fetchMarketData_v1 throttled =
      Inr ''Market snapshot: S&P 500: 5000.0000 (0.5000%), Nasdaq: N/A (N/A), Bitcoin: $64000.00000000''"
    by (simp add: throttled_shown text_of_def snapshot_v1_def)
  have g: "text_of (\<lambda>r. []) (shown_field rate_limit_note ''Global Quote'' ''05. price'') = ''N/A''"
    using online b by blast
  show ?thesis
    by (intro conjI; (rule throttled_equity c n1 n2 n3 s a d throttled_no_failure f b g))
qed

lemma throttled_json:
  "fetch_json throttled (globalQuoteUrl throttled ''^GSPC'') =
     Inr (JObj [(''Global Quote'',
            JObj [(''01. symbol'', JStr ''^GSPC''), (''05. price'', JStr ''5000.0000''),
                  (''10. change percent'', JStr ''0.5000%'')])])"
  "fetch_json throttled (globalQuoteUrl throttled ''^IXIC'') = Inr rate_limit_note"
  "fetch_json throttled (exchangeRateUrl throttled) =
     Inr (JObj [(''Realtime Currency Exchange Rate'',
            JObj [(''5. Exchange Rate'', JStr ''64000.00000000'')])])"
  by (simp_all add: fetch_json_def throttled_def market_def offline_def globalQuoteUrl_def
      exchangeRateUrl_def env_string_def json_ok_def respond_def coinGeckoUrl_def)

lemma fetchMarketData_v1_throttled:
  "fetchMarketData_v1 throttled =
     Inr ''Market snapshot: S&P 500: 5000.0000 (0.5000%), Nasdaq: N/A (N/A), Bitcoin: $64000.00000000''"
  unfolding fetchMarketData_v1_printable [OF throttled_no_failure]
  by (simp add: throttled_shown text_of_def snapshot_v1_def)

lemma fixed_NaN: "toFixed n2s 2 NaN = ''NaN''"
  by (simp add: toFixed_def)

text \<open>
  Claim C1 as stated fails, for both collectors. When Alpha Vantage answers the request
  for the Nasdaq with its note on the rate limit (an answer without a quote), the
  collector of the earlier revisions returns a snapshot with the data of the other two
  instruments and \<^verbatim>\<open>N/A\<close> for the Nasdaq, not the placeholder. And when the time series of
  SPY is malformed, its dates carrying no prices, the collector of daily-brief.ts returns a
  snapshot with the data of the other two instruments and \<^verbatim>\<open>NaN\<close> for the S&P 500.
\<close>

theorem partial_snapshot_counterexample:
  "fetch_json throttled (globalQuoteUrl throttled ''^IXIC'') = Inr rate_limit_note
   \<and> get rate_limit_note ''Global Quote'' = Inr None
   \<and> fetchMarketData_v1 throttled =
       Inr ''Market snapshot: S&P 500: 5000.0000 (0.5000%), Nasdaq: N/A (N/A), Bitcoin: $64000.00000000''
   \<and> fetchMarketData_v1 throttled \<noteq> Inr ''Market data unavailable''
   \<and> fetch no_prices (alphaVantageUrl no_prices ''SPY'') = json_ok (time_series bare_series)
   \<and> close_on bare_series (latest_date bare_series) = Some NaN
   \<and> fetchMarketData no_prices =
       Inr ''Market snapshot: S&P 500 (via SPY): $NaN (NaN%), Nasdaq (via QQQ): $398.00 (-0.50%), Bitcoin: $64000.00 (-1.25%)''
   \<and> fetchMarketData no_prices \<noteq> Inr ''Market data unavailable''"
proof -
  have no_quote: "get rate_limit_note ''Global Quote'' = Inr None"
    by (simp add: rate_limit_note_def get_def own_entries_def)
  have n2s: "num2str no_prices = (\<lambda>r. [])"
    by (simp add: no_prices_def market_def offline_def)
  have f1: "fetch no_prices (alphaVantageUrl no_prices ''SPY'') =
      json_ok (time_series bare_series)"
    by (simp add: no_prices_def market_def offline_def alphaVantageUrl_def env_string_def)
  have f2: "fetch no_prices (alphaVantageUrl no_prices ''QQQ'') =
      json_ok (time_series (series ''400.0000'' ''398.0000''))"
    by (simp add: no_prices_def market_def offline_def alphaVantageUrl_def env_string_def)
  have f3: "fetch no_prices coinGeckoUrl = json_ok bitcoin_price"
    by (simp add: no_prices_def market_def offline_def coinGeckoUrl_def)
  have bare: "truthy (Some bare_series)"
    by (simp add: truthy_def bare_series_def)
  have latest: "close_on bare_series (latest_date bare_series) = Some NaN"
    by (simp add: bare_series_recent bare_series_closes)
  have spy: "symbolQuote no_prices ''SPY'' = Inr \<lparr>price = NaN, changePercent = ''NaN''\<rparr>"
    unfolding symbolQuote_series [OF f1 bare] by (rule quoteOfSeries_bare)
  have qqq: "symbolQuote no_prices ''QQQ'' =
      Inr \<lparr>price = Fin 398, changePercent = ''-0.50''\<rparr>"
    unfolding symbolQuote_series [OF f2 truthy_series] quoteOfSeries_series n2s
    by (simp add: parse_400 parse_398 fall_of_two fixed_half)
  have result: "fetchMarketData no_prices =
      Inr ''Market snapshot: S&P 500 (via SPY): $NaN (NaN%), Nasdaq (via QQQ): $398.00 (-0.50%), Bitcoin: $64000.00 (-1.25%)''"
    unfolding fetchMarketData_snapshot [OF spy qqq f3] n2s
    by (simp add: snapshot_def fixed_NaN fixed_398 fixed_64000 fixed_btc_change)
  show ?thesis
    unfolding result fetchMarketData_v1_throttled using no_quote throttled_json(2) f1 latest
    by simp
qed

end
